theory Spec2Isabelle
  imports Main
begin

section \<open>Go values used by the controller\<close>

text \<open>
  A Go \<^verbatim>\<open>string\<close> is a sequence of bytes, here a \<^typ>\<open>string\<close> (a list of 8-bit
  characters). A Go \<^verbatim>\<open>error\<close> is an interface value compared by identity: the two
  package-level sentinels \<^verbatim>\<open>errNoChanges\<close> and \<^verbatim>\<open>errRemoteBranchMissing\<close> are
  constructors of their own, so that an unrelated error with the same text is a different
  value, as it is in Go. The errors that the code tells apart by identity, type or code
  are constructors too: \<^verbatim>\<open>NotFound\<close> is the API server's "not found" status error (the
  one \<^verbatim>\<open>client.IgnoreNotFound\<close> recognises), \<^verbatim>\<open>NotExist\<close> an error for which
  \<^verbatim>\<open>os.IsNotExist\<close> holds, \<^verbatim>\<open>Libgit2NotFound\<close> a libgit2 error with the code
  \<^verbatim>\<open>ErrorCodeNotFound\<close>, and three are go-git's. \<^verbatim>\<open>Err\<close> is any other error,
  carrying its message. A nil error is \<^term>\<open>None\<close>.
\<close>

datatype error =
  errNoChanges | errRemoteBranchMissing
  | NotFound string | NotExist string | Libgit2NotFound string
  | NoErrAlreadyUpToDate | NoMatchingRefSpecError string | ErrReferenceNotFound
  | Err string

fun Error :: "error \<Rightarrow> string" where
  "Error errNoChanges = ''no changes made to working directory''"
| "Error errRemoteBranchMissing = ''remote branch missing''"
| "Error (NotFound m) = m"
| "Error (NotExist m) = m"
| "Error (Libgit2NotFound m) = m"
| "Error NoErrAlreadyUpToDate = ''already up-to-date''"
| "Error (NoMatchingRefSpecError m) = m"
| "Error ErrReferenceNotFound = ''reference not found''"
| "Error (Err m) = m"

definition IgnoreNotFound :: "error option \<Rightarrow> error option" where
  "IgnoreNotFound err = (case err of Some (NotFound m) \<Rightarrow> None | _ \<Rightarrow> err)"

definition IsNotExist :: "error option \<Rightarrow> bool" where
  "IsNotExist err = (case err of Some (NotExist m) \<Rightarrow> True | _ \<Rightarrow> False)"

section \<open>The functions of package strings that the error normalizer calls\<close>

text \<open>
  \<^verbatim>\<open>strings.TrimSpace\<close> removes leading and trailing white space as Unicode defines it.
  On bytes that is: strip, from the left and then from the right, every UTF-8 encoding of
  a code point with the White_Space property. The decoder accepts shortest encodings
  only, and an invalid byte decodes to U+FFFD, which is no space.
\<close>

definition asciiSpaces :: string where
  "asciiSpaces = [CHR 0x09, CHR 0x0A, CHR 0x0B, CHR 0x0C, CHR 0x0D, CHR 0x20]"

definition unicodeSpaces :: "string list" where
  "unicodeSpaces =
    [[CHR 0xC2, CHR 0x85], [CHR 0xC2, CHR 0xA0], [CHR 0xE1, CHR 0x9A, CHR 0x80],
     [CHR 0xE2, CHR 0x80, CHR 0x80], [CHR 0xE2, CHR 0x80, CHR 0x81],
     [CHR 0xE2, CHR 0x80, CHR 0x82], [CHR 0xE2, CHR 0x80, CHR 0x83],
     [CHR 0xE2, CHR 0x80, CHR 0x84], [CHR 0xE2, CHR 0x80, CHR 0x85],
     [CHR 0xE2, CHR 0x80, CHR 0x86], [CHR 0xE2, CHR 0x80, CHR 0x87],
     [CHR 0xE2, CHR 0x80, CHR 0x88], [CHR 0xE2, CHR 0x80, CHR 0x89],
     [CHR 0xE2, CHR 0x80, CHR 0x8A], [CHR 0xE2, CHR 0x80, CHR 0xA8],
     [CHR 0xE2, CHR 0x80, CHR 0xA9], [CHR 0xE2, CHR 0x80, CHR 0xAF],
     [CHR 0xE2, CHR 0x81, CHR 0x9F], [CHR 0xE3, CHR 0x80, CHR 0x80]]"

definition spaceRunes :: "string list" where
  "spaceRunes = map (\<lambda>c. [c]) asciiSpaces @ unicodeSpaces"

definition asciiSpace :: "char \<Rightarrow> bool" where
  "asciiSpace c \<longleftrightarrow> c \<in> set asciiSpaces"

text \<open>The width in bytes of the encoding that the string starts with, 0 when it starts
  with none of them.\<close>

fun leadingWidth :: "string list \<Rightarrow> string \<Rightarrow> nat" where
  "leadingWidth [] s = 0"
| "leadingWidth (enc # encs) s =
     (if take (length enc) s = enc then length enc else leadingWidth encs s)"

lemma leadingWidth_le: "leadingWidth encs s \<le> length s"
proof (induction encs)
  case Nil
  show ?case by simp
next
  case (Cons enc encs)
  have "take (length enc) s = enc \<Longrightarrow> length enc \<le> length s"
    by (metis length_take min.cobounded1)
  with Cons show ?case by simp
qed

function trimLeftRunes :: "string list \<Rightarrow> string \<Rightarrow> string" where
  "trimLeftRunes encs s =
     (let w = leadingWidth encs s in if w = 0 then s else trimLeftRunes encs (drop w s))"
  by pat_completeness auto
termination
proof (relation "measure (\<lambda>(encs, s). length s)")
  show "wf (measure (\<lambda>(encs, s). length s))" by simp
next
  fix encs :: "string list" and s :: string and w :: nat
  assume "w = leadingWidth encs s" and "w \<noteq> 0"
  moreover have "leadingWidth encs s \<le> length s" by (rule leadingWidth_le)
  ultimately show "((encs, drop w s), (encs, s)) \<in> measure (\<lambda>(encs, s). length s)"
    by simp
qed

declare trimLeftRunes.simps [simp del]

definition TrimSpace :: "string \<Rightarrow> string" where
  "TrimSpace s = rev (trimLeftRunes (map rev spaceRunes) (rev (trimLeftRunes spaceRunes s)))"

text \<open>
  \<^verbatim>\<open>strings.Split(s, "\n")\<close>: the separator is one byte; the result of splitting the
  empty string is one empty piece.
\<close>

fun Split :: "string \<Rightarrow> char \<Rightarrow> string list" where
  "Split [] sep = [[]]"
| "Split (c # s) sep =
     (if c = sep then [] # Split s sep
      else (case Split s sep of [] \<Rightarrow> [[c]] | l # ls \<Rightarrow> (c # l) # ls))"

definition TrimPrefix :: "string \<Rightarrow> string \<Rightarrow> string" where
  "TrimPrefix s p = (if take (length p) s = p then drop (length p) s else s)"

text \<open>
  \<^verbatim>\<open>strings.Trim(s, cutset)\<close> for a cutset of ASCII characters (the only use is the cutset
  of space, tab and \<^verbatim>\<open>=\<close>): bytes of the cutset are removed from both ends. No byte of a
  multi-byte encoding is ASCII, so trimming bytes is trimming code points.
\<close>

definition Trim :: "string \<Rightarrow> string \<Rightarrow> string" where
  "Trim s cutset =
     rev (dropWhile (\<lambda>c. c \<in> set cutset) (rev (dropWhile (\<lambda>c. c \<in> set cutset) s)))"

fun Join :: "string list \<Rightarrow> string \<Rightarrow> string" where
  "Join [] sep = []"
| "Join [x] sep = x"
| "Join (x # y # ys) sep = x @ sep @ Join (y # ys) sep"

section \<open>Error normalizer\<close>

definition gogitPushError :: "error option \<Rightarrow> error option" where
  "gogitPushError err =
     (case err of
        None \<Rightarrow> None
      | Some e \<Rightarrow>
          if TrimSpace (Error e) = ''unknown error: remote:''
          then Some (Err ''push rejected; check git secret has write access'')
          else Some e)"

definition fencing :: string where
  "fencing = [CHR 0x20, CHR 0x09, CHR ''='']"

text \<open>The loop of \<^verbatim>\<open>libgit2PushError\<close>: \<open>b\<close> is the string builder, \<open>appending\<close> the
  flag of the same name.\<close>

fun appendLines :: "string list \<Rightarrow> bool \<Rightarrow> string \<Rightarrow> string" where
  "appendLines [] appending b = b"
| "appendLines (line # lines) appending b =
     (let m = Trim (TrimPrefix line ''remote:'') fencing in
      if m \<noteq> []
      then appendLines lines True ((if appending then b @ '' '' else b) @ m)
      else appendLines lines appending b)"

definition libgit2PushError :: "error option \<Rightarrow> error option" where
  "libgit2PushError err =
     (case err of
        None \<Rightarrow> None
      | Some e \<Rightarrow>
          (let lines = Split (Error e) (CHR 0x0A) in
           if length lines = 1 then Some e
           else Some (Err (appendLines lines False ''remote: ''))))"

section \<open>Data model\<close>

text \<open>
  The API types live in the \<^verbatim>\<open>api\<close> module and in source-controller; the controller
  file reads the fields below. Pointers are options (\<^term>\<open>None\<close> is nil). An instant
  is a number; the controller only stores and formats instants.
\<close>

type_synonym time = int

datatype condition_status = ConditionTrue | ConditionFalse | ConditionUnknown

datatype reason =
  GitNotAvailableReason | NoStrategyReason | ReconciliationFailedReason
  | ReconciliationSucceededReason

record condition =
  cStatus :: condition_status
  cReason :: reason
  cMessage :: string

record status =
  LastAutomationRunTime :: "time option"
  LastPushCommit :: string
  LastPushTime :: "time option"
  Ready :: "condition option"
  LastHandledReconcileAt :: string

record git_ref =
  Branch :: string
  Tag :: string
  SemVer :: string
  CommitSHA :: string

record commit_spec =
  AuthorName :: string
  AuthorEmail :: string
  SigningKey :: "string option"
  MessageTemplate :: string

record git_spec =
  Checkout :: "git_ref option"
  Commit :: commit_spec
  Push :: "string option"

record update_strategy =
  Strategy :: string
  Path :: string

record automation_spec =
  SourceRefKind :: string
  SourceRefName :: string
  GitSpec :: "git_spec option"
  Interval :: int
  Update :: "update_strategy option"
  Suspend :: bool

record automation =
  Name :: string
  Namespace :: string
  ReconcileRequest :: "string option"
  Deleting :: bool
  Spec :: automation_spec
  Status :: status

record git_repository =
  URL :: string
  SecretRef :: "string option"
  Reference :: "git_ref option"
  GitImplementation :: string

record result =
  Requeue :: bool
  RequeueAfter :: int

type_synonym secret = "string \<Rightarrow> string option"
type_synonym entity = string

record repoAccess =
  auth :: "string option"
  url :: string

record signature =
  sigName :: string
  sigEmail :: string
  sigWhen :: time

record TemplateData =
  AutomationObject :: "string \<times> string"
  Updated :: string

text \<open>A Go call either returns or panics (a nil pointer dereference, an index out of
  range); a panic unwinds the caller as well, running its deferred calls.\<close>

datatype 'a go = Return 'a | Panic string

subsection \<open>Constants\<close>

definition originRemote :: string where "originRemote = ''origin''"
definition defaultMessageTemplate :: string where
  "defaultMessageTemplate = ''Update from image update automation''"
definition signingSecretKey :: string where "signingSecretKey = ''git.asc''"
definition Second :: int where "Second = 1000000000"

text \<open>Constants of the packages the file imports (source-controller's API, the events
  package), with the values those packages give them.\<close>

definition GitRepositoryKind :: string where "GitRepositoryKind = ''GitRepository''"
definition LibGit2Implementation :: string where "LibGit2Implementation = ''libgit2''"
definition GoGitImplementation :: string where "GoGitImplementation = ''go-git''"
definition EventSeverityInfo :: string where "EventSeverityInfo = ''info''"
definition EventSeverityError :: string where "EventSeverityError = ''error''"

text \<open>Modelled from the spec: the constant \<^verbatim>\<open>imagev1.UpdateStrategySetters\<close> is declared
  in the api module; the spec names the one supported strategy "setters" and the API
  writes it \<^verbatim>\<open>Setters\<close>.\<close>

definition UpdateStrategySetters :: string where "UpdateStrategySetters = ''Setters''"

section \<open>The world outside the controller\<close>

text \<open>
  What the API server, the metrics and event sinks, the file system and the two git
  libraries answer when the controller calls them. A run is a function of these answers.
  \<^verbatim>\<open>PatchAnswer w n\<close> answers the run's \<open>n\<close>-th status patch (the read-modify-patch of
  \<^verbatim>\<open>patchStatus\<close>, counted from 0). \<^verbatim>\<open>Lstat\<close> and \<^verbatim>\<open>Stat\<close> take the repository
  path and the file name that \<^verbatim>\<open>filepath.Join\<close> joins; \<^verbatim>\<open>Lstat\<close> answers whether the
  mode has \<^verbatim>\<open>os.ModeSymlink\<close>. \<^verbatim>\<open>now\<close> is the clock at line 101, \<^verbatim>\<open>authorNow\<close> the
  clock at line 296. \<^verbatim>\<open>GetReference\<close> is \<^verbatim>\<open>reference.GetReference\<close> for the automation
  object; the three recorder fields say which recorders of the reconciler are not nil.
  \<^verbatim>\<open>UpdateWithSetters\<close> is the mutation step of package \<^verbatim>\<open>update\<close>, which the
  controller calls as a black box: a path and the policies in, a result or an error out.
  \<^verbatim>\<open>Quote\<close> is what the verb \<^verbatim>\<open>%q\<close> of package fmt prints for a string (the string
  in double quotes, with Go's escapes where it needs them).
\<close>

record cluster =
  getAuto :: "error + automation"
  PatchAnswer :: "nat \<Rightarrow> error option"
  getOrigin :: "error + git_repository"
  getSecret :: "string \<Rightarrow> error + secret"
  listPolicies :: "error + string list"
  MetricsRecorder :: bool
  EventRecorder :: bool
  ExternalEventRecorder :: bool
  GetReference :: "error option"
  Eventf :: "error option"
  now :: time
  authorNow :: time

record gitlibs =
  AuthSecretStrategyForURL :: "string \<Rightarrow> string \<Rightarrow> error + bool"
  AuthMethod :: "secret \<Rightarrow> error + string"
  CheckoutStrategyForRef :: "git_ref option \<Rightarrow> string \<Rightarrow> error option"
  CheckoutAnswer :: "error option"
  PlainOpen :: "error option"
  OpenRepository :: "error option"
  RemotesLookup :: "error option"
  Libgit2Fetch :: "string \<Rightarrow> error option"
  FetchContext :: "string \<Rightarrow> error option"
  RepoReference :: "string \<Rightarrow> error option"
  RepoHead :: "error option"
  SetReference :: "string \<Rightarrow> error option"
  Worktree :: "error option"
  WorktreeCheckout :: "string \<Rightarrow> error option"
  WorktreeStatus :: "error + string list"
  WorktreeCommit :: "string \<Rightarrow> entity option \<Rightarrow> signature \<Rightarrow> error + string"
  Libgit2Push :: "string \<Rightarrow> error option"
  PushContext :: "string \<Rightarrow> error option"

record world =
  api :: cluster
  git :: gitlibs
  TempDir :: "string \<Rightarrow> error + string"
  Lstat :: "string \<Rightarrow> string \<Rightarrow> error + bool"
  Stat :: "string \<Rightarrow> string \<Rightarrow> error option"
  SecureJoin :: "string \<Rightarrow> string \<Rightarrow> error + string"
  UpdateWithSetters :: "string \<Rightarrow> string list \<Rightarrow> error + string"
  ReadArmoredKeyRing :: "string \<Rightarrow> error + entity list"
  ParseTemplate :: "string \<Rightarrow> error option"
  ExecuteTemplate :: "string \<Rightarrow> TemplateData \<Rightarrow> error + string"
  FormatRFC3339 :: "time \<Rightarrow> string"
  Quote :: "string \<Rightarrow> string"

section \<open>Git operations\<close>

definition getRepoAccess :: "world \<Rightarrow> git_repository \<Rightarrow> error + repoAccess" where
  "getRepoAccess w repository =
     (case AuthSecretStrategyForURL (git w) (URL repository) (GitImplementation repository) of
        Inl err \<Rightarrow> Inl err
      | Inr authStrat \<Rightarrow>
          (case SecretRef repository of
             None \<Rightarrow> Inr \<lparr>auth = None, url = URL repository\<rparr>
           | Some name \<Rightarrow>
               if \<not> authStrat then Inr \<lparr>auth = None, url = URL repository\<rparr>
               else
                 (case getSecret (api w) name of
                    Inl err \<Rightarrow> Inl (Err (''auth secret error: '' @ Error err))
                  | Inr secret \<Rightarrow>
                      (case AuthMethod (git w) secret of
                         Inl err \<Rightarrow> Inl (Err (''auth error: '' @ Error err))
                       | Inr a \<Rightarrow> Inr \<lparr>auth = Some a, url = URL repository\<rparr>))))"

text \<open>The repository handle that \<^verbatim>\<open>cloneInto\<close> returns is the one working copy of the
  run; the functions below take the world in its place.\<close>

definition cloneInto ::
  "world \<Rightarrow> repoAccess \<Rightarrow> git_ref option \<Rightarrow> string \<Rightarrow> string \<Rightarrow> error option" where
  "cloneInto w access ref path impl =
     (case CheckoutStrategyForRef (git w) ref impl of
        Some err \<Rightarrow> Some err
      | None \<Rightarrow>
          (case CheckoutAnswer (git w) of
             Some err \<Rightarrow> Some err
           | None \<Rightarrow> PlainOpen (git w)))"

definition switchBranch :: "world \<Rightarrow> string \<Rightarrow> error option" where
  "switchBranch w pushBranch =
     (let localBranch = ''refs/heads/'' @ pushBranch;
          checkout =
            (case Worktree (git w) of
               Some err \<Rightarrow> Some err
             | None \<Rightarrow> WorktreeCheckout (git w) localBranch)
      in case RepoReference (git w) localBranch of
           Some ErrReferenceNotFound \<Rightarrow>
             (case RepoHead (git w) of
                Some err \<Rightarrow> Some err
              | None \<Rightarrow>
                  (case SetReference (git w) localBranch of
                     Some err \<Rightarrow> Some err
                   | None \<Rightarrow> checkout))
         | Some err \<Rightarrow> Some err
         | None \<Rightarrow> checkout)"

definition refspecOf :: "string \<Rightarrow> string" where
  "refspecOf branch = ''refs/heads/'' @ branch @ '':refs/heads/'' @ branch"

definition fetchLibgit2 :: "world \<Rightarrow> string \<Rightarrow> error option" where
  "fetchLibgit2 w refspec =
     (case RemotesLookup (git w) of
        Some err \<Rightarrow> Some err
      | None \<Rightarrow>
          (case Libgit2Fetch (git w) refspec of
             Some (Libgit2NotFound m) \<Rightarrow> Some errRemoteBranchMissing
           | err \<Rightarrow> err))"

definition fetchGoGit :: "world \<Rightarrow> string \<Rightarrow> error option" where
  "fetchGoGit w refspec =
     (case FetchContext (git w) refspec of
        Some NoErrAlreadyUpToDate \<Rightarrow> None
      | Some (NoMatchingRefSpecError m) \<Rightarrow> Some errRemoteBranchMissing
      | err \<Rightarrow> err)"

definition fetch :: "world \<Rightarrow> string \<Rightarrow> string \<Rightarrow> error option" where
  "fetch w branch impl =
     (let refspec = refspecOf branch in
      if impl = LibGit2Implementation then
        (case OpenRepository (git w) of
           Some err \<Rightarrow> Some err
         | None \<Rightarrow> fetchLibgit2 w refspec)
      else if impl = GoGitImplementation then fetchGoGit w refspec
      else Some (Err (''unknown git implementation '' @ Quote w impl)))"

definition pushGoGit :: "world \<Rightarrow> string \<Rightarrow> error option" where
  "pushGoGit w branch = gogitPushError (PushContext (git w) (refspecOf branch))"

definition pushLibgit2 :: "world \<Rightarrow> string \<Rightarrow> error option" where
  "pushLibgit2 w branch =
     (case RemotesLookup (git w) of
        Some err \<Rightarrow> Some err
      | None \<Rightarrow> libgit2PushError (Libgit2Push (git w) (refspecOf branch)))"

definition push :: "world \<Rightarrow> string \<Rightarrow> string \<Rightarrow> error option" where
  "push w branch impl =
     (if impl = LibGit2Implementation then
        (case OpenRepository (git w) of
           Some err \<Rightarrow> Some err
         | None \<Rightarrow> pushLibgit2 w branch)
      else if impl = GoGitImplementation then pushGoGit w branch
      else Some (Err (''unknown git implementation '' @ Quote w impl)))"

subsection \<open>Committing\<close>

text \<open>
  The loop over the keys of the status map, in the order the runtime iterates them.
  \<open>staged\<close> collects the files handed to \<^verbatim>\<open>working.Add\<close> (whose own result the code
  discards), \<open>changed\<close> is the flag of the same name. A failing \<^verbatim>\<open>Lstat\<close> ends the
  function; what was staged up to there stays staged.
\<close>

fun stageChanges ::
  "world \<Rightarrow> string \<Rightarrow> string list \<Rightarrow> string list \<Rightarrow> bool \<Rightarrow> string list \<times> (error + bool)" where
  "stageChanges w absRepoPath [] staged changed = (staged, Inr changed)"
| "stageChanges w absRepoPath (file # files) staged changed =
     (case Lstat w absRepoPath file of
        Inl err \<Rightarrow>
          (staged, Inl (Err (''checking if '' @ file @ '' is a symlink: '' @ Error err)))
      | Inr symlink \<Rightarrow>
          if symlink \<and> IsNotExist (Stat w absRepoPath file)
          then stageChanges w absRepoPath files staged changed
          else stageChanges w absRepoPath files (staged @ [file]) True)"

text \<open>The result pairs the files that were staged with what the function returns.\<close>

definition commitChangedManifests ::
  "world \<Rightarrow> string \<Rightarrow> entity option \<Rightarrow> signature \<Rightarrow> string \<Rightarrow> string list \<times> (error + string)" where
  "commitChangedManifests w absRepoPath ent author message =
     (case Worktree (git w) of
        Some err \<Rightarrow> ([], Inl err)
      | None \<Rightarrow>
          (case WorktreeStatus (git w) of
             Inl err \<Rightarrow> ([], Inl err)
           | Inr files \<Rightarrow>
               (case stageChanges w absRepoPath files [] False of
                  (staged, Inl err) \<Rightarrow> (staged, Inl err)
                | (staged, Inr changed) \<Rightarrow>
                    if \<not> changed then (staged, Inl errNoChanges)
                    else
                      (case WorktreeCommit (git w) message ent author of
                         Inl err \<Rightarrow> (staged, Inl err)
                       | Inr hash \<Rightarrow> (staged, Inr hash)))))"

subsection \<open>Signing key\<close>

definition namespacedName :: "string \<Rightarrow> string \<Rightarrow> string" where
  "namespacedName ns n = ns @ ''/'' @ n"

definition getSigningEntity :: "world \<Rightarrow> automation \<Rightarrow> (error + entity) go" where
  "getSigningEntity w auto =
     (case GitSpec (Spec auto) of
        None \<Rightarrow> Panic ''invalid memory address or nil pointer dereference''
      | Some gitSpec \<Rightarrow>
          (case SigningKey (Commit gitSpec) of
             None \<Rightarrow> Panic ''invalid memory address or nil pointer dereference''
           | Some name \<Rightarrow>
               (let secretName = namespacedName (Namespace auto) name in
                case getSecret (api w) name of
                  Inl err \<Rightarrow>
                    Return (Inl (Err (''could not find signing key secret '' @ [CHR 0x27]
                      @ secretName @ [CHR 0x27] @ '': '' @ Error err)))
                | Inr secret \<Rightarrow>
                    (case secret signingSecretKey of
                       None \<Rightarrow>
                         Return (Inl (Err (''signing key secret '' @ [CHR 0x27] @ secretName
                           @ [CHR 0x27] @ '' does not contain a '' @ [CHR 0x27] @ ''git.asc''
                           @ [CHR 0x27] @ '' key'')))
                     | Some data \<Rightarrow>
                         (case ReadArmoredKeyRing w data of
                            Inl err \<Rightarrow>
                              Return (Inl (Err (''could not read signing key from secret ''
                                @ [CHR 0x27] @ secretName @ [CHR 0x27] @ '': '' @ Error err)))
                          | Inr entities \<Rightarrow>
                              if length entities > 1
                              then Return (Inl (Err (''multiple entities read from secret ''
                                @ [CHR 0x27] @ secretName @ [CHR 0x27]
                                @ '', could not determine which signing key to use'')))
                              else
                                (case entities of
                                   [] \<Rightarrow> Panic ''index out of range [0] with length 0''
                                 | e # es \<Rightarrow> Return (Inr e)))))))"

section \<open>The reconciliation run\<close>

text \<open>
  What a run does to the outside, in the order it does it: log lines, events, status
  patches, metrics, and the calls of the git and file operations with what they returned.
  \<^verbatim>\<open>CommitChangedManifests\<close> carries the files that were staged and the result,
  \<^verbatim>\<open>PatchStatus\<close> the status that was sent and the answer. \<^verbatim>\<open>RecordCondition None\<close> is
  the metric of an object without a Ready condition, which the code records as Unknown.
\<close>

datatype event =
  LogInfo string | LogError string
  | RecorderEvent string string | ExternalEvent string string
  | PatchStatus status "error option"
  | RecordSuspend bool | RecordCondition "condition option" bool | RecordDuration time
  | MkTempDir "error + string" | RemoveAll string
  | GetRepoAccess "error + repoAccess" | CloneInto "error option"
  | Fetch string "error option" | SwitchBranch string "error option"
  | RunUpdate string "error + string"
  | GetSigningEntity "(error + entity) go"
  | CommitChangedManifests "string list" "error + string"
  | PushBranch string "error option"

text \<open>The calls that \<^verbatim>\<open>defer\<close> has registered; they run, last registered first, when
  \<^verbatim>\<open>Reconcile\<close> returns or panics.\<close>

datatype deferred =
  DeferRecordSuspension | DeferRecordReadinessMetric | DeferRecordDuration
  | DeferRemoveAll string

text \<open>The state of a run: \<open>status\<close> is \<^verbatim>\<open>auto.Status\<close> of the local object, \<open>patched\<close>
  counts the status patches so far.\<close>

record rstate =
  status :: status
  trace :: "event list"
  patched :: nat
  deferred :: "deferred list"

type_synonym outcome = "(result \<times> error option) go \<times> rstate"

definition emit :: "event \<Rightarrow> rstate \<Rightarrow> rstate" where
  "emit e st = st\<lparr>trace := trace st @ [e]\<rparr>"

definition deferCall :: "deferred \<Rightarrow> rstate \<Rightarrow> rstate" where
  "deferCall d st = st\<lparr>deferred := d # deferred st\<rparr>"

definition emptyResult :: result where
  "emptyResult = \<lparr>Requeue = False, RequeueAfter = 0\<rparr>"

definition requeueNow :: result where
  "requeueNow = \<lparr>Requeue = True, RequeueAfter = 0\<rparr>"

definition eventTrace :: "world \<Rightarrow> string \<Rightarrow> string \<Rightarrow> event list" where
  "eventTrace w severity msg =
     (if EventRecorder (api w) then [RecorderEvent severity msg] else []) @
     (if ExternalEventRecorder (api w) then
        (case GetReference (api w) of
           Some err \<Rightarrow> [LogError ''unable to send event'']
         | None \<Rightarrow>
             (case Eventf (api w) of
                Some err \<Rightarrow> [LogError ''unable to send event'']
              | None \<Rightarrow> [ExternalEvent severity msg]))
      else [])"

definition event :: "world \<Rightarrow> string \<Rightarrow> string \<Rightarrow> rstate \<Rightarrow> rstate" where
  "event w severity msg st = st\<lparr>trace := trace st @ eventTrace w severity msg\<rparr>"

text \<open>Modelled from the spec: \<^verbatim>\<open>SetImageUpdateAutomationReadiness\<close> is defined in the api
  module; the spec has the readiness condition as status, reason and message.\<close>

definition SetImageUpdateAutomationReadiness ::
  "condition_status \<Rightarrow> reason \<Rightarrow> string \<Rightarrow> rstate \<Rightarrow> rstate" where
  "SetImageUpdateAutomationReadiness c r m st =
     st\<lparr>status := (status st)\<lparr>Ready := Some \<lparr>cStatus = c, cReason = r, cMessage = m\<rparr>\<rparr>\<rparr>"

definition patchStatus :: "world \<Rightarrow> rstate \<Rightarrow> error option \<times> rstate" where
  "patchStatus w st =
     (let answer = PatchAnswer (api w) (patched st) in
      (answer, st\<lparr>trace := trace st @ [PatchStatus (status st) answer],
                   patched := Suc (patched st)\<rparr>))"

definition intervalOrDefault :: "automation \<Rightarrow> int" where
  "intervalOrDefault a =
     (if Interval (Spec a) < Second then Second else Interval (Spec a))"

definition failWithError :: "world \<Rightarrow> error \<Rightarrow> rstate \<Rightarrow> outcome" where
  "failWithError w err st =
     (let st1 = event w EventSeverityError (Error err) st;
          st2 = SetImageUpdateAutomationReadiness ConditionFalse ReconciliationFailedReason
                  (Error err) st1;
          (perr, st3) = patchStatus w st2;
          st4 = (case perr of
                   Some e \<Rightarrow> emit (LogError ''failed to reconcile'') st3
                 | None \<Rightarrow> st3)
      in (Return (requeueNow, Some err), st4))"

definition recordSuspension :: "world \<Rightarrow> automation \<Rightarrow> rstate \<Rightarrow> rstate" where
  "recordSuspension w a st =
     (if \<not> MetricsRecorder (api w) then st
      else
        (case GetReference (api w) of
           Some err \<Rightarrow> emit (LogError ''unable to record suspended metric'') st
         | None \<Rightarrow>
             if Deleting a then emit (RecordSuspend False) st
             else emit (RecordSuspend (Suspend (Spec a))) st))"

definition recordReadinessMetric :: "world \<Rightarrow> automation \<Rightarrow> rstate \<Rightarrow> rstate" where
  "recordReadinessMetric w a st =
     (if \<not> MetricsRecorder (api w) then st
      else
        (case GetReference (api w) of
           Some err \<Rightarrow> emit (LogError ''unable to record readiness metric'') st
         | None \<Rightarrow> emit (RecordCondition (Ready (status st)) (Deleting a)) st))"

fun runDeferred :: "world \<Rightarrow> automation \<Rightarrow> deferred \<Rightarrow> rstate \<Rightarrow> rstate" where
  "runDeferred w a DeferRecordSuspension st = recordSuspension w a st"
| "runDeferred w a DeferRecordReadinessMetric st = recordReadinessMetric w a st"
| "runDeferred w a DeferRecordDuration st = emit (RecordDuration (now (api w))) st"
| "runDeferred w a (DeferRemoveAll tmp) st = emit (RemoveAll tmp) st"

definition unwind :: "world \<Rightarrow> automation \<Rightarrow> outcome \<Rightarrow> outcome" where
  "unwind w a out =
     (case out of (r, st) \<Rightarrow> (r, (fold (runDeferred w a) (deferred st) st)\<lparr>deferred := []\<rparr>))"

subsection \<open>The body of \<^verbatim>\<open>Reconcile\<close>, last steps first\<close>

text \<open>Lines 321 to 334: the successful end of a run.\<close>

definition finishRun :: "world \<Rightarrow> automation \<Rightarrow> string \<Rightarrow> rstate \<Rightarrow> outcome" where
  "finishRun w a statusMessage st =
     (let st1 = st\<lparr>status := (status st)\<lparr>LastAutomationRunTime := Some (now (api w))\<rparr>\<rparr>;
          st2 = SetImageUpdateAutomationReadiness ConditionTrue ReconciliationSucceededReason
                  statusMessage st1;
          (perr, st3) = patchStatus w st2
      in case perr of
           Some err \<Rightarrow> (Return (requeueNow, Some err), st3)
         | None \<Rightarrow>
             (Return (\<lparr>Requeue = False, RequeueAfter = intervalOrDefault a\<rparr>, None), st3))"

text \<open>Lines 293 to 319: commit, and push what was committed.\<close>

definition commitAndPush ::
  "world \<Rightarrow> automation \<Rightarrow> git_spec \<Rightarrow> git_repository \<Rightarrow> string \<Rightarrow> string \<Rightarrow>
     entity option \<Rightarrow> string \<Rightarrow> rstate \<Rightarrow> outcome" where
  "commitAndPush w a gitSpec origin pushBranch tmp signingEntity message st =
     (let author = \<lparr>sigName = AuthorName (Commit gitSpec),
                     sigEmail = AuthorEmail (Commit gitSpec),
                     sigWhen = authorNow (api w)\<rparr>;
          (staged, res) = commitChangedManifests w tmp signingEntity author message;
          st0 = emit (CommitChangedManifests staged res) st
      in case res of
           Inl err \<Rightarrow>
             if err = errNoChanges then
               (let st1 = event w EventSeverityInfo ''no updates made'' st0;
                    st2 = emit (LogInfo ''no changes made in working directory; no commit'') st1;
                    lastCommit = LastPushCommit (status st2);
                    lastTime = LastPushTime (status st2)
                in if lastCommit \<noteq> [] then
                     (if length lastCommit < 7
                      then (Panic ''slice bounds out of range'', st2)
                      else
                        (case lastTime of
                           None \<Rightarrow>
                             (Panic ''invalid memory address or nil pointer dereference'', st2)
                         | Some t \<Rightarrow>
                             finishRun w a
                               (''no updates made'' @ ''; last commit '' @ take 7 lastCommit
                                  @ '' at '' @ FormatRFC3339 w t) st2))
                   else finishRun w a ''no updates made'' st2)
             else failWithError w err st0
         | Inr hash \<Rightarrow>
             (let perr = push w pushBranch (GitImplementation origin);
                  st1 = emit (PushBranch pushBranch perr) st0
              in case perr of
                   Some err \<Rightarrow> failWithError w err st1
                 | None \<Rightarrow>
                     (let st2 = event w EventSeverityInfo
                                  (''committed and pushed change '' @ hash @ '' to '' @ pushBranch)
                                  st1;
                          st3 = emit (LogInfo ''pushed commit to origin'') st2;
                          st4 = st3\<lparr>status := (status st3)\<lparr>LastPushCommit := hash,
                                  LastPushTime := Some (now (api w))\<rparr>\<rparr>
                      in finishRun w a
                           (''committed and pushed '' @ hash @ '' to '' @ pushBranch) st4)))"

text \<open>
  Lines 269 to 288: the signing key and the commit message. The error of
  \<^verbatim>\<open>getSigningEntity\<close> is assigned to \<^verbatim>\<open>err\<close>, and the next statement that touches
  \<^verbatim>\<open>err\<close> assigns the result of parsing the template to it: the run goes on with a nil
  signing entity.
\<close>

definition signAndRender ::
  "world \<Rightarrow> automation \<Rightarrow> git_spec \<Rightarrow> git_repository \<Rightarrow> string \<Rightarrow> string \<Rightarrow>
     string \<Rightarrow> rstate \<Rightarrow> outcome" where
  "signAndRender w a gitSpec origin pushBranch tmp updated st =
     (let signing =
            (case SigningKey (Commit gitSpec) of
               None \<Rightarrow> (Return None, st)
             | Some name \<Rightarrow>
                 (let r = getSigningEntity w a in
                  (case r of
                     Panic m \<Rightarrow> Panic m
                   | Return (Inl err) \<Rightarrow> Return None
                   | Return (Inr e) \<Rightarrow> Return (Some e),
                   emit (GetSigningEntity r) st)))
      in case signing of
           (Panic m, st1) \<Rightarrow> (Panic m, st1)
         | (Return signingEntity, st1) \<Rightarrow>
             (let msgTmpl =
                    (if MessageTemplate (Commit gitSpec) = [] then defaultMessageTemplate
                     else MessageTemplate (Commit gitSpec));
                  templateValues =
                    \<lparr>AutomationObject = (Namespace a, Name a), Updated = updated\<rparr>
              in case ParseTemplate w msgTmpl of
                   Some err \<Rightarrow>
                     failWithError w
                       (Err (''unable to create commit message template from spec: ''
                          @ Error err)) st1
                 | None \<Rightarrow>
                     (case ExecuteTemplate w msgTmpl templateValues of
                        Inl err \<Rightarrow>
                          failWithError w
                            (Err (''failed to run template from spec: '' @ Error err)) st1
                      | Inr message \<Rightarrow>
                          commitAndPush w a gitSpec origin pushBranch tmp signingEntity
                            message st1)))"

text \<open>Lines 244 to 267: the switch on the update strategy.\<close>

definition applyStrategy ::
  "world \<Rightarrow> automation \<Rightarrow> git_spec \<Rightarrow> git_repository \<Rightarrow> string \<Rightarrow> string \<Rightarrow>
     string \<Rightarrow> rstate \<Rightarrow> outcome" where
  "applyStrategy w a gitSpec origin pushBranch tmp manifestsPath st =
     (if (case Update (Spec a) of
            None \<Rightarrow> False
          | Some u \<Rightarrow> Strategy u = UpdateStrategySetters)
      then
        (case listPolicies (api w) of
           Inl err \<Rightarrow> failWithError w err st
         | Inr policies \<Rightarrow>
             (let r = UpdateWithSetters w manifestsPath policies;
                  st1 = emit (RunUpdate manifestsPath r) st
              in case r of
                   Inl err \<Rightarrow> failWithError w err st1
                 | Inr updated \<Rightarrow>
                     signAndRender w a gitSpec origin pushBranch tmp updated
                       (emit (LogInfo ''ran updates to working dir'') st1)))
      else
        (let st1 = emit (LogInfo ''no update strategy given in the spec'') st;
             st2 = event w EventSeverityInfo
                     ''no known update strategy in spec, failing trivially'' st1;
             st3 = SetImageUpdateAutomationReadiness ConditionFalse NoStrategyReason
                     ''no known update strategy is given for object'' st2;
             (perr, st4) = patchStatus w st3
         in (Return (emptyResult, perr), st4)))"

text \<open>Lines 235 to 242: the path of the manifests. \<^verbatim>\<open>auto.Spec.Update\<close> is a pointer, and
  line 236 reads its field \<^verbatim>\<open>Path\<close>.\<close>

definition resolveManifestsPath ::
  "world \<Rightarrow> automation \<Rightarrow> git_spec \<Rightarrow> git_repository \<Rightarrow> string \<Rightarrow> string \<Rightarrow>
     rstate \<Rightarrow> outcome" where
  "resolveManifestsPath w a gitSpec origin pushBranch tmp st =
     (case Update (Spec a) of
        None \<Rightarrow> (Panic ''invalid memory address or nil pointer dereference'', st)
      | Some u \<Rightarrow>
          if Path u \<noteq> [] then
            (case SecureJoin w tmp (Path u) of
               Inl err \<Rightarrow> failWithError w err st
             | Inr p \<Rightarrow> applyStrategy w a gitSpec origin pushBranch tmp p st)
          else applyStrategy w a gitSpec origin pushBranch tmp tmp st)"

text \<open>Lines 224 to 233: with a push spec, fetch the push branch and switch to it.\<close>

definition fetchAndSwitch ::
  "world \<Rightarrow> automation \<Rightarrow> git_spec \<Rightarrow> git_repository \<Rightarrow> string \<Rightarrow> string \<Rightarrow>
     rstate \<Rightarrow> outcome" where
  "fetchAndSwitch w a gitSpec origin pushBranch tmp st =
     (let continue = (\<lambda>st'. resolveManifestsPath w a gitSpec origin pushBranch tmp
                        (emit (LogInfo ''cloned git repository'') st'))
      in case Push gitSpec of
           None \<Rightarrow> continue st
         | Some b \<Rightarrow>
             (let ferr = fetch w pushBranch (GitImplementation origin);
                  st1 = emit (Fetch pushBranch ferr) st
              in case ferr of
                   Some err \<Rightarrow>
                     if err \<noteq> errRemoteBranchMissing then failWithError w err st1
                     else
                       (let serr = switchBranch w pushBranch;
                            st2 = emit (SwitchBranch pushBranch serr) st1
                        in case serr of
                             Some err' \<Rightarrow> failWithError w err' st2
                           | None \<Rightarrow> continue st2)
                 | None \<Rightarrow>
                     (let serr = switchBranch w pushBranch;
                          st2 = emit (SwitchBranch pushBranch serr) st1
                      in case serr of
                           Some err' \<Rightarrow> failWithError w err' st2
                         | None \<Rightarrow> continue st2)))"

text \<open>Lines 203 to 219: the working directory, the access to the repository, the clone.\<close>

definition cloneRepository ::
  "world \<Rightarrow> automation \<Rightarrow> git_spec \<Rightarrow> git_repository \<Rightarrow> git_ref option \<Rightarrow> string \<Rightarrow>
     rstate \<Rightarrow> outcome" where
  "cloneRepository w a gitSpec origin ref pushBranch st =
     (let r = TempDir w (Namespace a @ ''-'' @ SourceRefName (Spec a));
          st1 = emit (MkTempDir r) st
      in case r of
           Inl err \<Rightarrow> failWithError w err st1
         | Inr tmp \<Rightarrow>
             (let st2 = deferCall (DeferRemoveAll tmp) st1;
                  acc = getRepoAccess w origin;
                  st3 = emit (GetRepoAccess acc) st2
              in case acc of
                   Inl err \<Rightarrow> failWithError w err st3
                 | Inr access \<Rightarrow>
                     (let cerr = cloneInto w access ref tmp (GitImplementation origin);
                          st4 = emit (CloneInto cerr) st3
                      in case cerr of
                           Some err \<Rightarrow> failWithError w err st4
                         | None \<Rightarrow> fetchAndSwitch w a gitSpec origin pushBranch tmp st4)))"

text \<open>
  Lines 183 to 201: the checkout reference and the push branch. Without a push spec
  line 197 reads \<^verbatim>\<open>ref.Branch\<close>, where \<^verbatim>\<open>ref\<close> may be nil; and for an empty branch it
  calls \<^verbatim>\<open>failWithError\<close> without returning what that returns.
\<close>

definition resolveBranches ::
  "world \<Rightarrow> automation \<Rightarrow> git_spec \<Rightarrow> git_repository \<Rightarrow> rstate \<Rightarrow> outcome" where
  "resolveBranches w a gitSpec origin st =
     (let ref = (case Checkout gitSpec of
                   Some r \<Rightarrow> Some r
                 | None \<Rightarrow> Reference origin)
      in case Push gitSpec of
           Some b \<Rightarrow> cloneRepository w a gitSpec origin ref b st
         | None \<Rightarrow>
             (case ref of
                None \<Rightarrow> (Panic ''invalid memory address or nil pointer dereference'', st)
              | Some r \<Rightarrow>
                  (let st1 =
                         (if Branch r = [] then
                            snd (failWithError w
                              (Err (''Push branch not given explicitly, and cannot be inferred''
                                 @ '' from .spec.git.checkout.ref or GitRepository .spec.ref'')) st)
                          else st)
                   in cloneRepository w a gitSpec origin ref (Branch r) st1)))"

text \<open>Lines 152 to 180: the source object.\<close>

definition resolveSource :: "world \<Rightarrow> automation \<Rightarrow> rstate \<Rightarrow> outcome" where
  "resolveSource w a st =
     (if SourceRefKind (Spec a) \<noteq> GitRepositoryKind
      then failWithError w
             (Err (''source kind '' @ Quote w (SourceRefKind (Spec a)) @ '' not supported'')) st
      else
        (case GitSpec (Spec a) of
           None \<Rightarrow>
             failWithError w
               (Err (''source kind '' @ GitRepositoryKind @ '' neccessitates field .spec.git''))
               st
         | Some gitSpec \<Rightarrow>
             (case getOrigin (api w) of
                Inl err \<Rightarrow>
                  if IgnoreNotFound (Some err) = None then
                    (let st1 = SetImageUpdateAutomationReadiness ConditionFalse
                                 GitNotAvailableReason ''referenced git repository is missing'' st;
                         st2 = emit (LogError ''referenced git repository does not exist'') st1;
                         (perr, st3) = patchStatus w st2
                     in case perr of
                          Some e \<Rightarrow> (Return (requeueNow, Some e), st3)
                        | None \<Rightarrow> (Return (emptyResult, None), st3))
                  else (Return (emptyResult, Some err), st)
              | Inr origin \<Rightarrow>
                  resolveBranches w a gitSpec origin
                    (emit (LogInfo ''found git repository'') st))))"

text \<open>Lines 132 to 140: the reconcile request of the annotation is recorded as seen.\<close>

definition acknowledgeRequest :: "world \<Rightarrow> automation \<Rightarrow> rstate \<Rightarrow> outcome" where
  "acknowledgeRequest w a st =
     (case ReconcileRequest a of
        None \<Rightarrow> resolveSource w a st
      | Some token \<Rightarrow>
          (let st1 = st\<lparr>status := (status st)\<lparr>LastHandledReconcileAt := token\<rparr>\<rparr>;
               (perr, st2) = patchStatus w st1
           in case perr of
                Some err \<Rightarrow> (Return (requeueNow, Some err), st2)
              | None \<Rightarrow> resolveSource w a st2))"

text \<open>Lines 109 to 130: suspension and the metrics that are recorded on leaving.\<close>

definition reconcileObject :: "world \<Rightarrow> automation \<Rightarrow> rstate \<Rightarrow> outcome" where
  "reconcileObject w a st =
     (let st1 = deferCall DeferRecordSuspension st in
      if Suspend (Spec a)
      then (Return (emptyResult, None),
            emit (LogInfo ''ImageUpdateAutomation is suspended, skipping automation run'') st1)
      else
        (let st2 = deferCall DeferRecordReadinessMetric st1 in
         if MetricsRecorder (api w) then
           (case GetReference (api w) of
              Some err \<Rightarrow> (Return (emptyResult, Some err), st2)
            | None \<Rightarrow> acknowledgeRequest w a (deferCall DeferRecordDuration st2))
         else acknowledgeRequest w a st2))"

definition zeroStatus :: status where
  "zeroStatus = \<lparr>LastAutomationRunTime = None, LastPushCommit = [], LastPushTime = None,
     Ready = None, LastHandledReconcileAt = []\<rparr>"

definition Reconcile :: "world \<Rightarrow> outcome" where
  "Reconcile w =
     (case getAuto (api w) of
        Inl err \<Rightarrow>
          (Return (emptyResult, IgnoreNotFound (Some err)),
           \<lparr>status = zeroStatus, trace = [], patched = 0, deferred = []\<rparr>)
      | Inr a \<Rightarrow>
          unwind w a
            (reconcileObject w a \<lparr>status = Status a, trace = [], patched = 0, deferred = []\<rparr>))"

section \<open>Example worlds\<close>

text \<open>
  An automation that checks out \<^verbatim>\<open>main\<close> and pushes to \<^verbatim>\<open>flux-updates\<close>, in a world
  where every call succeeds: the push branch does not exist yet on the remote, one
  manifest has changed.
\<close>

definition exampleStatus :: status where
  "exampleStatus = \<lparr>LastAutomationRunTime = None, LastPushCommit = [], LastPushTime = None,
     Ready = None, LastHandledReconcileAt = []\<rparr>"

definition exampleGitSpec :: git_spec where
  "exampleGitSpec =
     \<lparr>Checkout = Some \<lparr>Branch = ''main'', Tag = [], SemVer = [], CommitSHA = []\<rparr>,
      Commit = \<lparr>AuthorName = ''fluxbot'', AuthorEmail = ''fluxbot@example.com'',
                SigningKey = None, MessageTemplate = []\<rparr>,
      Push = Some ''flux-updates''\<rparr>"

definition exampleSpec :: automation_spec where
  "exampleSpec =
     \<lparr>SourceRefKind = ''GitRepository'', SourceRefName = ''repo'',
      GitSpec = Some exampleGitSpec, Interval = 60 * Second,
      Update = Some \<lparr>Strategy = ''Setters'', Path = []\<rparr>, Suspend = False\<rparr>"

definition exampleAuto :: automation where
  "exampleAuto =
     \<lparr>Name = ''update'', Namespace = ''flux-system'', ReconcileRequest = None,
      Deleting = False, Spec = exampleSpec, Status = exampleStatus\<rparr>"

definition exampleOrigin :: git_repository where
  "exampleOrigin =
     \<lparr>URL = ''https://example.com/repo.git'', SecretRef = None,
      Reference = Some \<lparr>Branch = ''main'', Tag = [], SemVer = [], CommitSHA = []\<rparr>,
      GitImplementation = ''go-git''\<rparr>"

definition exampleCluster :: cluster where
  "exampleCluster =
     \<lparr>getAuto = Inr exampleAuto, PatchAnswer = (\<lambda>n. None), getOrigin = Inr exampleOrigin,
      getSecret = (\<lambda>name. Inl (NotFound ''secret not found'')),
      listPolicies = Inr [''podinfo''], MetricsRecorder = True, EventRecorder = True,
      ExternalEventRecorder = False, GetReference = None, Eventf = None,
      now = 1000, authorNow = 1001\<rparr>"

definition exampleGit :: gitlibs where
  "exampleGit =
     \<lparr>AuthSecretStrategyForURL = (\<lambda>u impl. Inr True), AuthMethod = (\<lambda>s. Inr ''token''),
      CheckoutStrategyForRef = (\<lambda>r impl. None), CheckoutAnswer = None, PlainOpen = None,
      OpenRepository = None, RemotesLookup = None, Libgit2Fetch = (\<lambda>r. None),
      FetchContext = (\<lambda>r. Some (NoMatchingRefSpecError ''no matching ref spec'')),
      RepoReference = (\<lambda>r. Some ErrReferenceNotFound), RepoHead = None,
      SetReference = (\<lambda>r. None), Worktree = None, WorktreeCheckout = (\<lambda>r. None),
      WorktreeStatus = Inr [''deploy.yaml''],
      WorktreeCommit = (\<lambda>m k a. Inr ''8f3a2c1d9e4b7a6c5d0e1f2a3b4c5d6e7f809a1b''),
      Libgit2Push = (\<lambda>r. None), PushContext = (\<lambda>r. None)\<rparr>"

definition exampleWorld :: world where
  "exampleWorld =
     \<lparr>api = exampleCluster, git = exampleGit, TempDir = (\<lambda>p. Inr (''/tmp/'' @ p)),
      Lstat = (\<lambda>d f. Inr False), Stat = (\<lambda>d f. None),
      SecureJoin = (\<lambda>d p. Inr (d @ ''/'' @ p)),
      UpdateWithSetters = (\<lambda>p ps. Inr ''podinfo:1.0.1''),
      ReadArmoredKeyRing = (\<lambda>d. Inr []), ParseTemplate = (\<lambda>t. None),
      ExecuteTemplate = (\<lambda>t v. Inr t), FormatRFC3339 = (\<lambda>t. ''2021-11-01T00:00:00Z''),
      Quote = (\<lambda>s. [CHR 0x22] @ s @ [CHR 0x22])\<rparr>"

text \<open>A world where the diff reports a deleted file first: \<^verbatim>\<open>Lstat\<close> fails on it.\<close>

definition deletedFileWorld :: world where
  "deletedFileWorld =
     exampleWorld
       \<lparr>git := exampleGit\<lparr>WorktreeStatus := Inr [''gone.yaml'', ''deploy.yaml'']\<rparr>,
        Lstat := (\<lambda>d f. if f = ''gone.yaml''
                   then Inl (NotExist ''lstat gone.yaml: no such file or directory'')
                   else Inr False)\<rparr>"

text \<open>A world where the diff reports a manifest, then a deleted file, then another
  manifest.\<close>

definition lateFailureWorld :: world where
  "lateFailureWorld =
     exampleWorld
       \<lparr>git := exampleGit\<lparr>WorktreeStatus :=
          Inr [''deploy.yaml'', ''gone.yaml'', ''kustomization.yaml'']\<rparr>,
        Lstat := (\<lambda>d f. if f = ''gone.yaml''
                   then Inl (NotExist ''lstat gone.yaml: no such file or directory'')
                   else Inr False)\<rparr>"

text \<open>A world where the diff reports a symlink whose target is missing, and a manifest.\<close>

definition brokenLinkWorld :: world where
  "brokenLinkWorld =
     exampleWorld
       \<lparr>git := exampleGit\<lparr>WorktreeStatus := Inr [''link'', ''deploy.yaml'']\<rparr>,
        Lstat := (\<lambda>d f. Inr (f = ''link'')),
        Stat := (\<lambda>d f. if f = ''link''
                  then Some (NotExist ''stat link: no such file or directory'') else None)\<rparr>"

definition exampleAuthor :: signature where
  "exampleAuthor = \<lparr>sigName = ''fluxbot'', sigEmail = ''fluxbot@example.com'', sigWhen = 1001\<rparr>"

text \<open>An automation that signs its commits, and a world where the secret holds an
  armored key-ring without any entity.\<close>

definition signedAuto :: automation where
  "signedAuto =
     exampleAuto\<lparr>Spec := exampleSpec\<lparr>GitSpec := Some (exampleGitSpec\<lparr>Commit :=
       \<lparr>AuthorName = ''fluxbot'', AuthorEmail = ''fluxbot@example.com'',
        SigningKey = Some ''signing-key'', MessageTemplate = []\<rparr>\<rparr>)\<rparr>\<rparr>"

definition emptyKeyringWorld :: world where
  "emptyKeyringWorld =
     exampleWorld
       \<lparr>api := exampleCluster\<lparr>getAuto := Inr signedAuto,
          getSecret := (\<lambda>name. Inr (\<lambda>k. if k = ''git.asc'' then Some ''armored'' else None))\<rparr>,
        ReadArmoredKeyRing := (\<lambda>d. Inr [])\<rparr>"

text \<open>A suspended automation.\<close>

definition suspendedAuto :: automation where
  "suspendedAuto = exampleAuto\<lparr>Spec := exampleSpec\<lparr>Suspend := True\<rparr>\<rparr>"

definition suspendedWorld :: world where
  "suspendedWorld = exampleWorld\<lparr>api := exampleCluster\<lparr>getAuto := Inr suspendedAuto\<rparr>\<rparr>"




text \<open>An automation that has pushed before, in a world where the update changes no file;
  and the example automation in such a world where the API server rejects every status
  patch.\<close>

definition recordedAuto :: automation where
  "recordedAuto =
     exampleAuto\<lparr>Status := exampleStatus\<lparr>
       LastPushCommit := ''8f3a2c1d9e4b7a6c5d0e1f2a3b4c5d6e7f809a1b'',
       LastPushTime := Some 900\<rparr>\<rparr>"

definition noChangesWorld :: world where
  "noChangesWorld =
     exampleWorld\<lparr>api := exampleCluster\<lparr>getAuto := Inr recordedAuto\<rparr>,
       git := exampleGit\<lparr>WorktreeStatus := Inr []\<rparr>\<rparr>"

definition noChangesConflictWorld :: world where
  "noChangesConflictWorld =
     exampleWorld\<lparr>api := exampleCluster\<lparr>
         PatchAnswer := (\<lambda>n. Some (Err ''the object has been modified''))\<rparr>,
       git := exampleGit\<lparr>WorktreeStatus := Inr []\<rparr>\<rparr>"

text \<open>
  An automation without a push spec whose checkout reference is a tag, so that no branch
  is named anywhere; the remote refuses the push of the empty branch name. And an
  automation without a push spec and without a checkout reference, for a source that
  has no reference either.
\<close>

definition noBranchGitSpec :: git_spec where
  "noBranchGitSpec =
     exampleGitSpec\<lparr>
       Checkout := Some \<lparr>Branch = [], Tag = ''v1.0.0'', SemVer = [], CommitSHA = []\<rparr>,
       Push := None\<rparr>"

definition noBranchAuto :: automation where
  "noBranchAuto = exampleAuto\<lparr>Spec := exampleSpec\<lparr>GitSpec := Some noBranchGitSpec\<rparr>\<rparr>"

definition noBranchWorld :: world where
  "noBranchWorld =
     exampleWorld\<lparr>api := exampleCluster\<lparr>getAuto := Inr noBranchAuto\<rparr>,
       git := exampleGit\<lparr>PushContext := (\<lambda>r. Some (Err ''malformed refspec''))\<rparr>\<rparr>"

definition noRefGitSpec :: git_spec where
  "noRefGitSpec = exampleGitSpec\<lparr>Checkout := None, Push := None\<rparr>"

definition noRefAuto :: automation where
  "noRefAuto = exampleAuto\<lparr>Spec := exampleSpec\<lparr>GitSpec := Some noRefGitSpec\<rparr>\<rparr>"

definition noRefWorld :: world where
  "noRefWorld =
     exampleWorld\<lparr>api := exampleCluster\<lparr>getAuto := Inr noRefAuto,
       getOrigin := Inr (exampleOrigin\<lparr>Reference := None\<rparr>)\<rparr>\<rparr>"

text \<open>The signing automation in a world where the secret of the signing key does not
  exist.\<close>

definition missingKeyWorld :: world where
  "missingKeyWorld = exampleWorld\<lparr>api := exampleCluster\<lparr>getAuto := Inr signedAuto\<rparr>\<rparr>"

text \<open>An automation without the field \<^verbatim>\<open>update\<close>.\<close>

definition nilUpdateAuto :: automation where
  "nilUpdateAuto = exampleAuto\<lparr>Spec := exampleSpec\<lparr>Update := None\<rparr>\<rparr>"

definition nilUpdateWorld :: world where
  "nilUpdateWorld = exampleWorld\<lparr>api := exampleCluster\<lparr>getAuto := Inr nilUpdateAuto\<rparr>\<rparr>"

section \<open>What the claims speak of\<close>

text \<open>The fragments that the spec describes for a multi-line push error: each line
  without its \<^verbatim>\<open>remote:\<close> prefix and without surrounding blanks, tabs and \<^verbatim>\<open>=\<close>, the
  empty ones dropped.\<close>

definition fragments :: "string list \<Rightarrow> string list" where
  "fragments lines =
     filter (\<lambda>m. m \<noteq> []) (map (\<lambda>line. Trim (TrimPrefix line ''remote:'') fencing) lines)"

text \<open>A broken symlink: a symlink by \<^verbatim>\<open>Lstat\<close> whose target \<^verbatim>\<open>Stat\<close> reports as not
  existing.\<close>

definition brokenSymlink :: "world \<Rightarrow> string \<Rightarrow> string \<Rightarrow> bool" where
  "brokenSymlink w absRepoPath file \<longleftrightarrow>
     Lstat w absRepoPath file = Inr True \<and> IsNotExist (Stat w absRepoPath file)"

subsection \<open>Predicates on runs\<close>

text \<open>
  An event is calm when it is neither a commit nor a push, a status patch in it leaves
  the recorded push as it was, and (unless \<open>cloned\<close>) it is not the log line that
  follows the clone. A state satisfies \<open>inv\<close> when all its events are calm and the
  recorded push of the local object is the original one.
\<close>

fun calm :: "bool \<Rightarrow> status \<Rightarrow> event \<Rightarrow> bool" where
  "calm cloned orig (PushBranch b r) = False"
| "calm cloned orig (CommitChangedManifests staged r) = False"
| "calm cloned orig (PatchStatus s r) =
     (LastPushCommit s = LastPushCommit orig \<and> LastPushTime s = LastPushTime orig)"
| "calm cloned orig (LogInfo m) = (cloned \<or> m \<noteq> ''cloned git repository'')"
| "calm cloned orig e = True"

definition inv :: "bool \<Rightarrow> automation \<Rightarrow> rstate \<Rightarrow> bool" where
  "inv cloned a st \<longleftrightarrow>
     list_all (calm cloned (Status a)) (trace st)
     \<and> LastPushCommit (status st) = LastPushCommit (Status a)
     \<and> LastPushTime (status st) = LastPushTime (Status a)"

definition reachesPath :: "world \<Rightarrow> automation \<Rightarrow> outcome \<Rightarrow> bool" where
  "reachesPath w a out \<longleftrightarrow>
     inv False a (snd out)
     \<or> (\<exists>gitSpec origin pushBranch tmp st.
           inv True a st \<and> LogInfo ''cloned git repository'' \<in> set (trace st)
           \<and> out = resolveManifestsPath w a gitSpec origin pushBranch tmp st)"

fun telemetry :: "event \<Rightarrow> bool" where
  "telemetry (RemoveAll p) = True"
| "telemetry (RecordDuration t) = True"
| "telemetry (RecordCondition c d) = True"
| "telemetry (RecordSuspend b) = True"
| "telemetry (LogError m) = True"
| "telemetry e = False"

definition reachesCommit :: "world \<Rightarrow> automation \<Rightarrow> outcome \<Rightarrow> bool" where
  "reachesCommit w a out \<longleftrightarrow>
     inv True a (snd out)
     \<or> (\<exists>gitSpec origin pushBranch tmp ent message st.
           inv True a st
           \<and> out = commitAndPush w a gitSpec origin pushBranch tmp ent message st)"

fun settled :: "status \<Rightarrow> event \<Rightarrow> bool" where
  "settled orig (PushBranch b r) = False"
| "settled orig (PatchStatus s r) =
     (LastPushCommit s = LastPushCommit orig \<and> LastPushTime s = LastPushTime orig)"
| "settled orig e = True"

definition wellRecorded :: "status \<Rightarrow> bool" where
  "wellRecorded s \<longleftrightarrow>
     LastPushCommit s = [] \<or> (7 \<le> length (LastPushCommit s) \<and> LastPushTime s \<noteq> None)"

definition noUpdatesMessage :: "world \<Rightarrow> status \<Rightarrow> string" where
  "noUpdatesMessage w s =
     (if LastPushCommit s = [] then ''no updates made''
      else ''no updates made'' @ ''; last commit '' @ take 7 (LastPushCommit s) @ '' at ''
             @ FormatRFC3339 w (the (LastPushTime s)))"

definition finishedQuietly :: "world \<Rightarrow> automation \<Rightarrow> outcome \<Rightarrow> bool" where
  "finishedQuietly w a out \<longleftrightarrow>
     list_all (settled (Status a)) (trace (snd out))
     \<and> LastPushCommit (status (snd out)) = LastPushCommit (Status a)
     \<and> LastPushTime (status (snd out)) = LastPushTime (Status a)
     \<and> (wellRecorded (Status a) \<longrightarrow>
          Ready (status (snd out)) =
            Some \<lparr>cStatus = ConditionTrue, cReason = ReconciliationSucceededReason,
                  cMessage = noUpdatesMessage w (Status a)\<rparr>
          \<and> LastAutomationRunTime (status (snd out)) = Some (now (api w))
          \<and> (\<exists>n. PatchStatus (status (snd out)) (PatchAnswer (api w) n) \<in> set (trace (snd out))
                \<and> fst out =
                    (case PatchAnswer (api w) n of
                       None \<Rightarrow>
                         Return (\<lparr>Requeue = False, RequeueAfter = intervalOrDefault a\<rparr>, None)
                     | Some err \<Rightarrow> Return (requeueNow, Some err))))"


section \<open>Properties of the error normalizer\<close>

lemma leadingWidth_single:
  "c \<in> set cs \<Longrightarrow> leadingWidth (map (\<lambda>c. [c]) cs @ rest) (c # s) = 1"
  by (induction cs) auto

lemma leadingWidth_single_rev:
  "c \<in> set cs \<Longrightarrow> leadingWidth (map rev (map (\<lambda>c. [c]) cs @ rest)) (c # s) = 1"
  by (induction cs) auto

lemma leadingWidth_ascii: "asciiSpace c \<Longrightarrow> leadingWidth spaceRunes (c # s) = 1"
  by (simp add: asciiSpace_def spaceRunes_def leadingWidth_single)

lemma leadingWidth_ascii_rev:
  "asciiSpace c \<Longrightarrow> leadingWidth (map rev spaceRunes) (c # s) = 1"
  unfolding asciiSpace_def spaceRunes_def by (rule leadingWidth_single_rev)

lemma trimLeft_ascii:
  "\<forall>c \<in> set ws. asciiSpace c \<Longrightarrow>
     trimLeftRunes spaceRunes (ws @ t) = trimLeftRunes spaceRunes t"
proof (induction ws)
  case Nil
  show ?case by simp
next
  case (Cons c ws)
  then have "leadingWidth spaceRunes (c # ws @ t) = 1" by (simp add: leadingWidth_ascii)
  then have "trimLeftRunes spaceRunes ((c # ws) @ t) = trimLeftRunes spaceRunes (ws @ t)"
    by (subst trimLeftRunes.simps) simp
  with Cons show ?case by simp
qed

lemma trimLeft_ascii_rev:
  "\<forall>c \<in> set ws. asciiSpace c \<Longrightarrow>
     trimLeftRunes (map rev spaceRunes) (ws @ t) = trimLeftRunes (map rev spaceRunes) t"
proof (induction ws)
  case Nil
  show ?case by simp
next
  case (Cons c ws)
  then have "leadingWidth (map rev spaceRunes) (c # ws @ t) = 1"
    by (simp add: leadingWidth_ascii_rev)
  then have "trimLeftRunes (map rev spaceRunes) ((c # ws) @ t) =
      trimLeftRunes (map rev spaceRunes) (ws @ t)"
    by (subst trimLeftRunes.simps) simp
  with Cons show ?case by simp
qed

lemma trimLeft_stop: "leadingWidth encs s = 0 \<Longrightarrow> trimLeftRunes encs s = s"
  by (subst trimLeftRunes.simps) simp

lemma marker_left: "leadingWidth spaceRunes (''unknown error: remote:'' @ t) = 0"
  by (simp add: spaceRunes_def asciiSpaces_def unicodeSpaces_def)

lemma marker_right: "leadingWidth (map rev spaceRunes) (rev ''unknown error: remote:'') = 0"
  by (simp add: spaceRunes_def asciiSpaces_def unicodeSpaces_def)

text \<open>White space around the marker is trimmed away.\<close>

lemma TrimSpace_marker:
  assumes "\<forall>c \<in> set ws1. asciiSpace c" and "\<forall>c \<in> set ws2. asciiSpace c"
  shows "TrimSpace (ws1 @ ''unknown error: remote:'' @ ws2) = ''unknown error: remote:''"
proof -
  have l: "trimLeftRunes spaceRunes (ws1 @ ''unknown error: remote:'' @ ws2) =
      ''unknown error: remote:'' @ ws2"
    using assms(1) marker_left [of ws2] by (simp only: trimLeft_ascii trimLeft_stop)
  have "\<forall>c \<in> set (rev ws2). asciiSpace c" using assms(2) by simp
  then have "trimLeftRunes (map rev spaceRunes) (rev ws2 @ rev ''unknown error: remote:'') =
      trimLeftRunes (map rev spaceRunes) (rev ''unknown error: remote:'')"
    by (rule trimLeft_ascii_rev)
  also have "\<dots> = rev ''unknown error: remote:''"
    using marker_right by (rule trimLeft_stop)
  finally have r: "trimLeftRunes (map rev spaceRunes) (rev (''unknown error: remote:'' @ ws2)) =
      rev ''unknown error: remote:''"
    by (simp only: rev_append)
  show ?thesis unfolding TrimSpace_def l r by (simp only: rev_rev_ident)
qed

text \<open>
  C7. A nil error stays nil. An error whose text, trimmed of white space, is
  \<^verbatim>\<open>unknown error: remote:\<close> (in particular that marker with blanks, tabs or line ends
  around it) is replaced by the fixed diagnostic about write access. Every other error
  is returned as it is.
\<close>

theorem gogitPushError_normalizes:
  "gogitPushError None = None
   \<and> (TrimSpace (Error e) = ''unknown error: remote:'' \<longrightarrow>
        gogitPushError (Some e) = Some (Err ''push rejected; check git secret has write access''))
   \<and> ((\<forall>c \<in> set ws1. asciiSpace c) \<and> (\<forall>c \<in> set ws2. asciiSpace c)
        \<and> Error e = ws1 @ ''unknown error: remote:'' @ ws2 \<longrightarrow>
        gogitPushError (Some e) = Some (Err ''push rejected; check git secret has write access''))
   \<and> (TrimSpace (Error e) \<noteq> ''unknown error: remote:'' \<longrightarrow> gogitPushError (Some e) = Some e)"
  using TrimSpace_marker [of ws1 ws2] by (simp add: gogitPushError_def)

theorem gogitPushError_normalizes_witness:
  "TrimSpace (Error (Err (''unknown error: remote: '' @ [CHR 0x0A]))) = ''unknown error: remote:''
   \<and> gogitPushError (Some (Err (''unknown error: remote: '' @ [CHR 0x0A]))) =
       Some (Err ''push rejected; check git secret has write access'')
   \<and> TrimSpace (Error (Err ''authentication required'')) \<noteq> ''unknown error: remote:''
   \<and> gogitPushError (Some (Err ''authentication required'')) =
       Some (Err ''authentication required'')"
proof -
  have a: "TrimSpace (Error (Err (''unknown error: remote: '' @ [CHR 0x0A]))) =
      ''unknown error: remote:''"
    by code_simp
  have b: "TrimSpace (Error (Err ''authentication required'')) \<noteq> ''unknown error: remote:''"
    by code_simp
  show ?thesis
    using a b
      gogitPushError_normalizes [of "Err (''unknown error: remote: '' @ [CHR 0x0A])" "[]" "[]"]
      gogitPushError_normalizes [of "Err ''authentication required''" "[]" "[]"]
    by blast
qed

lemma Split_nonempty: "Split s c \<noteq> []"
  by (induction s) (auto split: list.splits)

lemma Split_single: "length (Split s c) = 1 \<longleftrightarrow> c \<notin> set s"
proof (induction s)
  case Nil
  show ?case by simp
next
  case (Cons a s)
  show ?case
  proof (cases "a = c")
    case True
    then show ?thesis using Split_nonempty [of s c] by simp
  next
    case False
    then show ?thesis using Cons Split_nonempty [of s c]
      by (auto split: list.splits)
  qed
qed

lemma appendLines_Join:
  "appendLines lines appending b =
     b @ (if appending \<and> fragments lines \<noteq> [] then '' '' else [])
       @ Join (fragments lines) '' ''"
proof (induction lines arbitrary: appending b)
  case Nil
  show ?case by (simp add: fragments_def)
next
  case (Cons line lines)
  show ?case
  proof (cases "Trim (TrimPrefix line ''remote:'') fencing = []")
    case True
    then show ?thesis using Cons [of appending b] by (simp add: fragments_def)
  next
    case False
    then show ?thesis
      using Cons [of True
          "(if appending then b @ '' '' else b) @ Trim (TrimPrefix line ''remote:'') fencing"]
      by (cases "fragments lines") (auto simp: fragments_def Let_def)
  qed
qed

text \<open>What \<^verbatim>\<open>Trim\<close> leaves starts and ends with a character outside the cutset.\<close>

lemma Trim_ends:
  "Trim s cutset \<noteq> [] \<Longrightarrow>
     hd (Trim s cutset) \<notin> set cutset \<and> last (Trim s cutset) \<notin> set cutset"
proof -
  define P where "P = (\<lambda>c. c \<in> set cutset)"
  define l where "l = dropWhile P s"
  define r where "r = dropWhile P (rev l)"
  assume "Trim s cutset \<noteq> []"
  then have ne: "r \<noteq> []" by (simp add: Trim_def P_def l_def r_def)
  then have h: "\<not> P (hd r)" unfolding r_def by (rule hd_dropWhile)
  from ne have lne: "l \<noteq> []" by (auto simp: r_def)
  then have hl: "\<not> P (hd l)" unfolding l_def by (rule hd_dropWhile)
  obtain pre where pre: "rev l = pre @ r"
    unfolding r_def by (metis takeWhile_dropWhile_id)
  then have "l = rev r @ rev pre" by (metis rev_append rev_rev_ident)
  with ne have "hd (rev r) = hd l" by simp
  with hl have "\<not> P (hd (rev r))" by simp
  moreover have "last (rev r) = hd r" using ne by (simp add: last_rev)
  ultimately show ?thesis using h by (simp add: Trim_def P_def l_def r_def)
qed

lemma fragments_stripped:
  "f \<in> set (fragments lines) \<Longrightarrow> f \<noteq> [] \<and> hd f \<notin> set fencing \<and> last f \<notin> set fencing"
  by (auto simp: fragments_def dest: Trim_ends)

text \<open>
  C8. A nil error stays nil, and an error whose message has no line break is returned as
  it is. For a message of several lines the result is a new error whose text is
  \<^verbatim>\<open>remote: \<close> followed by the fragments of the lines, joined by single blanks: each
  line loses the prefix \<^verbatim>\<open>remote:\<close> if it starts with it, then the blanks, tabs and
  \<^verbatim>\<open>=\<close> at both ends, and the lines that become empty are dropped: no fragment is
  empty, and none starts or ends with a blank, a tab or \<^verbatim>\<open>=\<close>.
\<close>

theorem libgit2PushError_rebuilds:
  "libgit2PushError None = None
   \<and> (CHR 0x0A \<notin> set (Error e) \<longrightarrow> libgit2PushError (Some e) = Some e)
   \<and> (CHR 0x0A \<in> set (Error e) \<longrightarrow>
        libgit2PushError (Some e) =
          Some (Err (''remote: '' @ Join (fragments (Split (Error e) (CHR 0x0A))) '' '')))
   \<and> (\<forall>f \<in> set (fragments (Split (Error e) (CHR 0x0A))).
          f \<noteq> [] \<and> hd f \<notin> set fencing \<and> last f \<notin> set fencing)"
proof -
  have "libgit2PushError None = None"
    by (simp add: libgit2PushError_def)
  moreover have "CHR 0x0A \<notin> set (Error e) \<longrightarrow> libgit2PushError (Some e) = Some e"
    using Split_single [of "Error e" "CHR 0x0A"] by (simp add: libgit2PushError_def)
  moreover have "CHR 0x0A \<in> set (Error e) \<longrightarrow>
      libgit2PushError (Some e) =
        Some (Err (''remote: '' @ Join (fragments (Split (Error e) (CHR 0x0A))) '' ''))"
    using Split_single [of "Error e" "CHR 0x0A"]
    by (simp add: libgit2PushError_def appendLines_Join)
  moreover have "\<forall>f \<in> set (fragments (Split (Error e) (CHR 0x0A))).
      f \<noteq> [] \<and> hd f \<notin> set fencing \<and> last f \<notin> set fencing"
    using fragments_stripped by blast
  ultimately show ?thesis by blast
qed

theorem libgit2PushError_rebuilds_witness:
  "CHR 0x0A \<notin> set (Error (Err ''authentication required''))
   \<and> libgit2PushError (Some (Err ''authentication required'')) =
       Some (Err ''authentication required'')
   \<and> CHR 0x0A \<in> set (Error (Err (''remote: ====='' @ [CHR 0x0A] @ ''remote: denied  ''
        @ [CHR 0x0A] @ ''remote: ====='' @ [CHR 0x0A] @ ''to repo'')))
   \<and> libgit2PushError (Some (Err (''remote: ====='' @ [CHR 0x0A] @ ''remote: denied  ''
        @ [CHR 0x0A] @ ''remote: ====='' @ [CHR 0x0A] @ ''to repo''))) =
       Some (Err ''remote: denied to repo'')"
proof -
  have f: "Join (fragments (Split (''remote: ====='' @ [CHR 0x0A] @ ''remote: denied  ''
        @ [CHR 0x0A] @ ''remote: ====='' @ [CHR 0x0A] @ ''to repo'') (CHR 0x0A))) '' '' =
      ''denied to repo''"
    by code_simp
  show ?thesis
    using f libgit2PushError_rebuilds [of "Err ''authentication required''"]
      libgit2PushError_rebuilds [of "Err (''remote: ====='' @ [CHR 0x0A] @ ''remote: denied  ''
        @ [CHR 0x0A] @ ''remote: ====='' @ [CHR 0x0A] @ ''to repo'')"]
    by simp
qed

section \<open>Staging and committing\<close>

lemma stageChanges_filter:
  "\<forall>f \<in> set files. \<not> isl (Lstat w dir f) \<Longrightarrow>
   stageChanges w dir files staged changed =
     (staged @ filter (\<lambda>f. \<not> brokenSymlink w dir f) files,
      Inr (changed \<or> filter (\<lambda>f. \<not> brokenSymlink w dir f) files \<noteq> []))"
proof (induction files arbitrary: staged changed)
  case Nil
  show ?case by simp
next
  case (Cons f files)
  from Cons.prems obtain s where s: "Lstat w dir f = Inr s"
    by (cases "Lstat w dir f") auto
  from Cons.prems have rest: "\<forall>f \<in> set files. \<not> isl (Lstat w dir f)" by simp
  show ?case
  proof (cases "brokenSymlink w dir f")
    case True
    then show ?thesis using s Cons.IH [OF rest, of staged changed]
      by (simp add: brokenSymlink_def)
  next
    case False
    then show ?thesis using s Cons.IH [OF rest, of "staged @ [f]" True]
      by (auto simp: brokenSymlink_def)
  qed
qed

text \<open>
  C9, as stated, fails where \<^verbatim>\<open>Lstat\<close> fails: the diff reports \<^verbatim>\<open>gone.yaml\<close> and
  \<^verbatim>\<open>deploy.yaml\<close>, neither is a broken symlink, and the function returns the error of
  line 544 with nothing staged.
\<close>

theorem commitChangedManifests_lstat_counterexample:
  "WorktreeStatus (git deletedFileWorld) = Inr [''gone.yaml'', ''deploy.yaml'']
   \<and> \<not> brokenSymlink deletedFileWorld ''/tmp/flux-system-repo'' ''deploy.yaml''
   \<and> commitChangedManifests deletedFileWorld ''/tmp/flux-system-repo'' None exampleAuthor
        ''Update from image update automation'' =
       ([], Inl (Err (''checking if gone.yaml is a symlink: ''
          @ ''lstat gone.yaml: no such file or directory'')))"
  by (simp add: commitChangedManifests_def deletedFileWorld_def exampleWorld_def
      exampleGit_def brokenSymlink_def)

text \<open>A failing \<^verbatim>\<open>Lstat\<close> ends the loop: what was staged before stays, nothing after it
  is looked at.\<close>

lemma stageChanges_fails:
  "\<forall>g \<in> set pre. \<not> isl (Lstat w dir g) \<Longrightarrow> Lstat w dir f = Inl err \<Longrightarrow>
   stageChanges w dir (pre @ f # post) staged changed =
     (staged @ filter (\<lambda>g. \<not> brokenSymlink w dir g) pre,
      Inl (Err (''checking if '' @ f @ '' is a symlink: '' @ Error err)))"
proof (induction pre arbitrary: staged changed)
  case Nil
  then show ?case by simp
next
  case (Cons g pre)
  from Cons.prems(1) obtain s where s: "Lstat w dir g = Inr s"
    by (cases "Lstat w dir g") auto
  from Cons.prems(1) have rest: "\<forall>g \<in> set pre. \<not> isl (Lstat w dir g)" by simp
  show ?case
  proof (cases "brokenSymlink w dir g")
    case True
    then show ?thesis using s Cons.IH [OF rest Cons.prems(2), of staged changed]
      by (simp add: brokenSymlink_def)
  next
    case False
    then show ?thesis using s Cons.IH [OF rest Cons.prems(2), of "staged @ [g]" True]
      by (auto simp: brokenSymlink_def)
  qed
qed

text \<open>
  C9, amended. Let the working tree and its status be readable. When \<^verbatim>\<open>Lstat\<close> succeeds
  on every reported file, exactly the reported files that are not broken symlinks are
  staged, in the order of the iteration; when every reported file is a broken symlink
  nothing is staged and the function returns \<^verbatim>\<open>errNoChanges\<close> without committing;
  otherwise it returns what the commit returns. When \<^verbatim>\<open>Lstat\<close> fails on a reported
  file, the first such file ends the function: the files before it that are not broken
  symlinks are staged, no file after it is staged, and the function returns the error
  "checking if the file is a symlink", which is not the result of a commit.
\<close>

theorem commitChangedManifests_stages:
  assumes "Worktree (git w) = None"
    and "WorktreeStatus (git w) = Inr files"
  shows "((\<forall>f \<in> set files. \<not> isl (Lstat w dir f)) \<longrightarrow>
            fst (commitChangedManifests w dir ent author message) =
              filter (\<lambda>f. \<not> brokenSymlink w dir f) files
            \<and> snd (commitChangedManifests w dir ent author message) =
                (if \<forall>f \<in> set files. brokenSymlink w dir f then Inl errNoChanges
                 else WorktreeCommit (git w) message ent author))
       \<and> (\<forall>pre f post err.
             files = pre @ f # post \<and> (\<forall>g \<in> set pre. \<not> isl (Lstat w dir g))
             \<and> Lstat w dir f = Inl err \<longrightarrow>
             commitChangedManifests w dir ent author message =
               (filter (\<lambda>g. \<not> brokenSymlink w dir g) pre,
                Inl (Err (''checking if '' @ f @ '' is a symlink: '' @ Error err))))"
proof (intro conjI impI allI)
  assume ok: "\<forall>f \<in> set files. \<not> isl (Lstat w dir f)"
  have staged: "stageChanges w dir files [] False =
      (filter (\<lambda>f. \<not> brokenSymlink w dir f) files,
       Inr (filter (\<lambda>f. \<not> brokenSymlink w dir f) files \<noteq> []))"
    using stageChanges_filter [OF ok, of "[]" False] by simp
  have empty: "(filter (\<lambda>f. \<not> brokenSymlink w dir f) files = []) =
      (\<forall>f \<in> set files. brokenSymlink w dir f)"
    by (simp add: filter_empty_conv)
  show "fst (commitChangedManifests w dir ent author message) =
      filter (\<lambda>f. \<not> brokenSymlink w dir f) files"
    using staged assms by (auto simp: commitChangedManifests_def split: sum.splits)
  show "snd (commitChangedManifests w dir ent author message) =
      (if \<forall>f \<in> set files. brokenSymlink w dir f then Inl errNoChanges
       else WorktreeCommit (git w) message ent author)"
    using staged empty assms by (auto simp: commitChangedManifests_def split: sum.splits)
next
  fix pre f post err
  assume "files = pre @ f # post \<and> (\<forall>g \<in> set pre. \<not> isl (Lstat w dir g))
      \<and> Lstat w dir f = Inl err"
  then have "stageChanges w dir files [] False =
      (filter (\<lambda>g. \<not> brokenSymlink w dir g) pre,
       Inl (Err (''checking if '' @ f @ '' is a symlink: '' @ Error err)))"
    using stageChanges_fails [of pre w dir f err post "[]" False] by simp
  then show "commitChangedManifests w dir ent author message =
      (filter (\<lambda>g. \<not> brokenSymlink w dir g) pre,
       Inl (Err (''checking if '' @ f @ '' is a symlink: '' @ Error err)))"
    using assms by (simp add: commitChangedManifests_def)
qed

theorem commitChangedManifests_stages_witness:
  "Worktree (git brokenLinkWorld) = None
   \<and> WorktreeStatus (git brokenLinkWorld) = Inr [''link'', ''deploy.yaml'']
   \<and> brokenSymlink brokenLinkWorld ''/tmp/flux-system-repo'' ''link''
   \<and> commitChangedManifests brokenLinkWorld ''/tmp/flux-system-repo'' None exampleAuthor
        ''Update from image update automation'' =
       ([''deploy.yaml''], Inr ''8f3a2c1d9e4b7a6c5d0e1f2a3b4c5d6e7f809a1b'')
   \<and> Worktree (git lateFailureWorld) = None
   \<and> WorktreeStatus (git lateFailureWorld) =
       Inr ([''deploy.yaml''] @ ''gone.yaml'' # [''kustomization.yaml''])
   \<and> Lstat lateFailureWorld ''/tmp/flux-system-repo'' ''gone.yaml'' =
       Inl (NotExist ''lstat gone.yaml: no such file or directory'')
   \<and> commitChangedManifests lateFailureWorld ''/tmp/flux-system-repo'' None exampleAuthor
        ''Update from image update automation'' =
       ([''deploy.yaml''],
        Inl (Err (''checking if gone.yaml is a symlink: ''
          @ ''lstat gone.yaml: no such file or directory'')))"
proof -
  have w: "Worktree (git brokenLinkWorld) = None"
    and s: "WorktreeStatus (git brokenLinkWorld) = Inr [''link'', ''deploy.yaml'']"
    and l: "\<forall>f \<in> set [''link'', ''deploy.yaml''].
        \<not> isl (Lstat brokenLinkWorld ''/tmp/flux-system-repo'' f)"
    and b: "brokenSymlink brokenLinkWorld ''/tmp/flux-system-repo'' ''link''"
    and n: "\<not> brokenSymlink brokenLinkWorld ''/tmp/flux-system-repo'' ''deploy.yaml''"
    and c: "WorktreeCommit (git brokenLinkWorld) ''Update from image update automation'' None
        exampleAuthor = Inr ''8f3a2c1d9e4b7a6c5d0e1f2a3b4c5d6e7f809a1b''"
    by (simp_all add: brokenLinkWorld_def exampleWorld_def exampleGit_def brokenSymlink_def
        IsNotExist_def)
  have w': "Worktree (git lateFailureWorld) = None"
    and s': "WorktreeStatus (git lateFailureWorld) =
        Inr ([''deploy.yaml''] @ ''gone.yaml'' # [''kustomization.yaml''])"
    and l': "\<forall>g \<in> set [''deploy.yaml'']. \<not> isl (Lstat lateFailureWorld ''/tmp/flux-system-repo'' g)"
    and f': "Lstat lateFailureWorld ''/tmp/flux-system-repo'' ''gone.yaml'' =
        Inl (NotExist ''lstat gone.yaml: no such file or directory'')"
    and n': "\<not> brokenSymlink lateFailureWorld ''/tmp/flux-system-repo'' ''deploy.yaml''"
    by (simp_all add: lateFailureWorld_def exampleWorld_def exampleGit_def brokenSymlink_def
        IsNotExist_def)
  have first: "commitChangedManifests brokenLinkWorld ''/tmp/flux-system-repo'' None
      exampleAuthor ''Update from image update automation'' =
      ([''deploy.yaml''], Inr ''8f3a2c1d9e4b7a6c5d0e1f2a3b4c5d6e7f809a1b'')"
    using commitChangedManifests_stages [OF w s, of "''/tmp/flux-system-repo''" None
        exampleAuthor "''Update from image update automation''"] l b n c
    by (simp add: prod_eq_iff)
  have "commitChangedManifests lateFailureWorld ''/tmp/flux-system-repo'' None
      exampleAuthor ''Update from image update automation'' =
      (filter (\<lambda>g. \<not> brokenSymlink lateFailureWorld ''/tmp/flux-system-repo'' g)
         [''deploy.yaml''],
       Inl (Err (''checking if '' @ ''gone.yaml'' @ '' is a symlink: ''
         @ Error (NotExist ''lstat gone.yaml: no such file or directory''))))"
    using commitChangedManifests_stages [OF w' s', of "''/tmp/flux-system-repo''" None
        exampleAuthor "''Update from image update automation''"] l' f'
    by blast
  then have second: "commitChangedManifests lateFailureWorld ''/tmp/flux-system-repo'' None
      exampleAuthor ''Update from image update automation'' =
      ([''deploy.yaml''],
       Inl (Err (''checking if gone.yaml is a symlink: ''
         @ ''lstat gone.yaml: no such file or directory'')))"
    using n' by simp
  show ?thesis using w s b first w' s' f' second by blast
qed

section \<open>The signing key\<close>

text \<open>
  C4 at a key-ring without entities: the armored block parses, the list of entities is
  empty, the test of line 597 lets it pass, and line 600 indexes the empty list.
\<close>

theorem getSigningEntity_empty_keyring:
  "ReadArmoredKeyRing emptyKeyringWorld ''armored'' = Inr []
   \<and> getSigningEntity emptyKeyringWorld signedAuto =
       Panic ''index out of range [0] with length 0''"
  by (simp add: getSigningEntity_def emptyKeyringWorld_def signedAuto_def exampleAuto_def
      exampleSpec_def exampleGitSpec_def exampleWorld_def exampleCluster_def
      signingSecretKey_def)

section \<open>Properties of the run\<close>

subsection \<open>How the helpers change the state\<close>

lemma emit_simps [simp]:
  "trace (emit e st) = trace st @ [e]" "status (emit e st) = status st"
  "patched (emit e st) = patched st" "deferred (emit e st) = deferred st"
  by (simp_all add: emit_def)

lemma deferCall_simps [simp]:
  "trace (deferCall d st) = trace st" "status (deferCall d st) = status st"
  "patched (deferCall d st) = patched st" "deferred (deferCall d st) = d # deferred st"
  by (simp_all add: deferCall_def)

lemma event_simps [simp]:
  "trace (event w sev m st) = trace st @ eventTrace w sev m"
  "status (event w sev m st) = status st" "patched (event w sev m st) = patched st"
  "deferred (event w sev m st) = deferred st"
  by (simp_all add: event_def)

lemma readiness_simps [simp]:
  "trace (SetImageUpdateAutomationReadiness c r m st) = trace st"
  "patched (SetImageUpdateAutomationReadiness c r m st) = patched st"
  "deferred (SetImageUpdateAutomationReadiness c r m st) = deferred st"
  "LastPushCommit (status (SetImageUpdateAutomationReadiness c r m st)) = LastPushCommit (status st)"
  "LastPushTime (status (SetImageUpdateAutomationReadiness c r m st)) = LastPushTime (status st)"
  "Ready (status (SetImageUpdateAutomationReadiness c r m st)) =
     Some \<lparr>cStatus = c, cReason = r, cMessage = m\<rparr>"
  by (simp_all add: SetImageUpdateAutomationReadiness_def)

lemma patchStatus_simps [simp]:
  "fst (patchStatus w st) = PatchAnswer (api w) (patched st)"
  "trace (snd (patchStatus w st)) = trace st @ [PatchStatus (status st) (PatchAnswer (api w) (patched st))]"
  "status (snd (patchStatus w st)) = status st"
  "patched (snd (patchStatus w st)) = Suc (patched st)"
  "deferred (snd (patchStatus w st)) = deferred st"
  by (simp_all add: patchStatus_def Let_def)

lemma calm_eventTrace [simp]: "list_all (calm c orig) (eventTrace w sev m)"
  by (simp add: eventTrace_def split: option.splits)

lemma marker_eventTrace [simp]: "LogInfo m' \<notin> set (eventTrace w sev m)"
  by (simp add: eventTrace_def split: option.splits)

lemma failWithError_fst [simp]: "fst (failWithError w err st) = Return (requeueNow, Some err)"
  by (simp add: failWithError_def Let_def split: prod.splits)

lemma inv_failWithError: "inv c a st \<Longrightarrow> inv c a (snd (failWithError w err st))"
  by (auto simp: failWithError_def inv_def Let_def patchStatus_def split: prod.splits option.splits)

lemma marker_failWithError:
  "LogInfo m \<in> set (trace (snd (failWithError w err st))) \<longleftrightarrow> LogInfo m \<in> set (trace st)"
  by (auto simp: failWithError_def Let_def patchStatus_def split: prod.splits option.splits)

lemma stop_failWithError: "inv False a st \<Longrightarrow> reachesPath w a (failWithError w err st)"
  by (simp add: reachesPath_def inv_failWithError)

lemma calm_mono: "calm False orig e \<Longrightarrow> calm True orig e"
  by (cases e) simp_all

lemma inv_mono: "inv False a st \<Longrightarrow> inv True a st"
  by (auto simp: inv_def list_all_iff calm_mono)

lemma inv_emit: "inv c a st \<Longrightarrow> calm c (Status a) e \<Longrightarrow> inv c a (emit e st)"
  by (simp add: inv_def)

subsection \<open>From the start of the run to the clone\<close>

text \<open>
  Every step up to the clone either ends the run in a state whose events are calm and
  without the log line of the clone, or hands over to the step that resolves the
  manifests path, in a state whose events are calm.
\<close>

lemma reaches_fetchAndSwitch:
  assumes i: "inv False a st"
  shows "reachesPath w a (fetchAndSwitch w a gitSpec origin pushBranch tmp st)"
proof -
  have go: "reachesPath w a (resolveManifestsPath w a gitSpec origin pushBranch tmp
        (emit (LogInfo ''cloned git repository'') st'))" if "inv False a st'" for st'
  proof -
    have "inv True a (emit (LogInfo ''cloned git repository'') st')"
      using that by (simp add: inv_mono inv_emit)
    moreover have "LogInfo ''cloned git repository''
        \<in> set (trace (emit (LogInfo ''cloned git repository'') st'))"
      by simp
    ultimately show ?thesis unfolding reachesPath_def by blast
  qed
  show ?thesis
    using i
    by (auto simp: fetchAndSwitch_def Let_def inv_emit
        intro!: go stop_failWithError split: option.splits)
qed

lemma reaches_cloneRepository:
  assumes i: "inv False a st"
  shows "reachesPath w a (cloneRepository w a gitSpec origin ref pushBranch st)"
proof -
  have d: "inv False a (deferCall x st')" if "inv False a st'" for x st'
    using that by (simp add: inv_def)
  show ?thesis
    using i
    by (auto simp: cloneRepository_def Let_def inv_emit d
        intro!: reaches_fetchAndSwitch stop_failWithError split: option.splits sum.splits)
qed

lemma reaches_resolveBranches:
  assumes i: "inv False a st"
  shows "reachesPath w a (resolveBranches w a gitSpec origin st)"
  using i
  by (auto simp: resolveBranches_def Let_def inv_failWithError reachesPath_def [of w a "(Panic m, s)" for m s]
      intro!: reaches_cloneRepository split: option.splits)


lemma stop_patch:
  "inv c a st \<Longrightarrow> inv c a (snd (patchStatus w st))"
  by (simp add: inv_def)

lemma reaches_resolveSource:
  assumes i: "inv False a st"
  shows "reachesPath w a (resolveSource w a st)"
proof -
  have r: "inv False a (SetImageUpdateAutomationReadiness c r m st')" if "inv False a st'"
    for c r m st'
    using that by (simp add: inv_def)
  have s: "reachesPath w a (x, st')" if "inv False a st'" for x st'
    using that by (simp add: reachesPath_def)
  show ?thesis
    using i
    by (auto simp: resolveSource_def Let_def split_beta inv_emit r stop_patch
        intro!: reaches_resolveBranches stop_failWithError s
        split: option.splits sum.splits)
qed

lemma reaches_acknowledgeRequest:
  assumes i: "inv False a st"
  shows "reachesPath w a (acknowledgeRequest w a st)"
proof -
  have u: "inv False a (st\<lparr>status := (status st)\<lparr>LastHandledReconcileAt := t\<rparr>\<rparr>)" for t
    using i by (simp add: inv_def)
  have s: "reachesPath w a (x, st')" if "inv False a st'" for x st'
    using that by (simp add: reachesPath_def)
  have p: "reachesPath w a (resolveSource w a (snd (patchStatus w st')))" if "inv False a st'" for st'
    using that by (intro reaches_resolveSource stop_patch)
  show ?thesis
    using i u
    by (auto simp: acknowledgeRequest_def Let_def split_beta stop_patch
        intro!: reaches_resolveSource s p split: option.splits)
qed

lemma reaches_reconcileObject:
  assumes i: "inv False a st"
  shows "reachesPath w a (reconcileObject w a st)"
proof -
  have d: "inv False a (deferCall x st')" if "inv False a st'" for x st'
    using that by (simp add: inv_def)
  have s: "reachesPath w a (x, st')" if "inv False a st'" for x st'
    using that by (simp add: reachesPath_def)
  show ?thesis
    using i
    by (auto simp: reconcileObject_def Let_def inv_emit d
        intro!: reaches_acknowledgeRequest s split: option.splits)
qed

subsection \<open>The deferred calls\<close>

text \<open>Leaving \<^verbatim>\<open>Reconcile\<close> appends telemetry to the trace and changes nothing else.\<close>

lemma unwind_fst [simp]: "fst (unwind w a out) = fst out"
  by (simp add: unwind_def split: prod.splits)

lemma fold_runDeferred:
  "\<exists>devs. trace (fold (runDeferred w a) ds st) = trace st @ devs \<and> list_all telemetry devs
     \<and> status (fold (runDeferred w a) ds st) = status st"
proof (induction ds arbitrary: st)
  case Nil
  show ?case by simp
next
  case (Cons d ds)
  have step: "\<exists>devs. trace (runDeferred w a d st) = trace st @ devs \<and> list_all telemetry devs
      \<and> status (runDeferred w a d st) = status st"
    by (cases d) (auto simp: recordSuspension_def recordReadinessMetric_def split: option.splits)
  then obtain devs1 where 1: "trace (runDeferred w a d st) = trace st @ devs1"
    "list_all telemetry devs1" "status (runDeferred w a d st) = status st"
    by blast
  from Cons [of "runDeferred w a d st"] obtain devs2 where
    2: "trace (fold (runDeferred w a) ds (runDeferred w a d st)) =
        trace (runDeferred w a d st) @ devs2"
      "list_all telemetry devs2"
      "status (fold (runDeferred w a) ds (runDeferred w a d st)) = status (runDeferred w a d st)"
    by blast
  show ?case
    using 1 2 by (intro exI [of _ "devs1 @ devs2"]) simp
qed

lemma unwind_trace:
  "\<exists>devs. trace (snd (unwind w a out)) = trace (snd out) @ devs \<and> list_all telemetry devs"
  using fold_runDeferred [of w a "deferred (snd out)" "snd out"]
  by (auto simp: unwind_def split: prod.splits)

lemma unwind_status [simp]: "status (snd (unwind w a out)) = status (snd out)"
  using fold_runDeferred [of w a "deferred (snd out)" "snd out"]
  by (auto simp: unwind_def split: prod.splits)

lemma inv_init: "inv False a \<lparr>status = Status a, trace = [], patched = 0, deferred = []\<rparr>"
  by (simp add: inv_def)

lemma Reconcile_unwind:
  "getAuto (api w) = Inr a \<Longrightarrow>
   Reconcile w = unwind w a (reconcileObject w a
     \<lparr>status = Status a, trace = [], patched = 0, deferred = []\<rparr>)"
  by (simp add: Reconcile_def)

lemma inv_no_marker: "inv False a st \<Longrightarrow> LogInfo ''cloned git repository'' \<notin> set (trace st)"
  by (auto simp: inv_def list_all_iff)

lemma inv_no_commit: "inv c a st \<Longrightarrow> CommitChangedManifests staged r \<notin> set (trace st)"
  by (auto simp: inv_def list_all_iff)

lemma telemetry_no_log: "list_all telemetry devs \<Longrightarrow> LogInfo m \<notin> set devs"
  by (auto simp: list_all_iff)

lemma telemetry_no_commit: "list_all telemetry devs \<Longrightarrow> CommitChangedManifests s r \<notin> set devs"
  by (auto simp: list_all_iff)

lemma telemetry_settled: "telemetry e \<Longrightarrow> settled orig e"
  by (cases e) simp_all

subsection \<open>The strategy switch\<close>



subsection \<open>From the manifests path to the commit\<close>

text \<open>
  The steps from the manifests path on either end the run in a state whose events are
  calm, or hand over to the commit step in such a state; and a commit step that reports
  no changes finishes the run without a push.
\<close>

lemma commit_stop: "inv True a st \<Longrightarrow> reachesCommit w a (x, st)"
  by (simp add: reachesCommit_def)

lemma commit_failWithError: "inv True a st \<Longrightarrow> reachesCommit w a (failWithError w err st)"
  by (simp add: reachesCommit_def inv_failWithError)

lemma commits_signAndRender:
  assumes i: "inv True a st"
  shows "reachesCommit w a (signAndRender w a gitSpec origin pushBranch tmp updated st)"
proof -
  have go: "reachesCommit w a (commitAndPush w a gitSpec origin pushBranch tmp ent message st')"
    if "inv True a st'" for ent message st'
    using that unfolding reachesCommit_def by blast
  show ?thesis
    using i
    by (auto simp: signAndRender_def Let_def inv_emit
        intro!: go commit_stop commit_failWithError
        split: option.splits sum.splits go.splits)
qed

lemma commits_applyStrategy:
  assumes i: "inv True a st"
  shows "reachesCommit w a (applyStrategy w a gitSpec origin pushBranch tmp path st)"
proof -
  have r: "inv True a (SetImageUpdateAutomationReadiness c r m st')" if "inv True a st'"
    for c r m st'
    using that by (simp add: inv_def)
  have e: "inv True a (event w sev m st')" if "inv True a st'" for sev m st'
    using that by (simp add: inv_def)
  show ?thesis
    using i
    by (auto simp: applyStrategy_def Let_def split_beta inv_emit r e stop_patch
        intro!: commits_signAndRender commit_stop commit_failWithError
        split: option.splits sum.splits)
qed

lemma commits_resolveManifestsPath:
  assumes i: "inv True a st"
  shows "reachesCommit w a (resolveManifestsPath w a gitSpec origin pushBranch tmp st)"
  using i
  by (auto simp: resolveManifestsPath_def
      intro!: commits_applyStrategy commit_stop commit_failWithError
      split: option.splits sum.splits)

lemma reachesPath_reachesCommit: "reachesPath w a out \<Longrightarrow> reachesCommit w a out"
proof -
  assume "reachesPath w a out"
  then consider "inv False a (snd out)"
    | gitSpec origin pushBranch tmp st where "inv True a st"
        "out = resolveManifestsPath w a gitSpec origin pushBranch tmp st"
    unfolding reachesPath_def by blast
  then show ?thesis
  proof cases
    case 1
    then show ?thesis by (simp add: reachesCommit_def inv_mono)
  next
    case 2
    then show ?thesis by (simp add: commits_resolveManifestsPath)
  qed
qed

lemma calm_settled: "calm c orig e \<Longrightarrow> settled orig e"
  by (cases e) simp_all

lemma inv_settled: "inv c a st \<Longrightarrow> list_all (settled (Status a)) (trace st)"
  by (auto simp: inv_def list_all_iff calm_settled)

lemma settled_eventTrace [simp]: "list_all (settled orig) (eventTrace w sev m)"
  by (simp add: eventTrace_def split: option.splits)

lemma commit_eventTrace [simp]: "CommitChangedManifests s r \<notin> set (eventTrace w sev m)"
  by (simp add: eventTrace_def split: option.splits)

lemma commit_failWithError_trace:
  "CommitChangedManifests s r \<in> set (trace (snd (failWithError w err st)))
     \<longleftrightarrow> CommitChangedManifests s r \<in> set (trace st)"
  by (auto simp: failWithError_def Let_def split_beta split: option.splits)

lemma finishRun_quiet:
  assumes "list_all (settled (Status a)) (trace st)"
    and "LastPushCommit (status st) = LastPushCommit (Status a)"
    and "LastPushTime (status st) = LastPushTime (Status a)"
    and "wellRecorded (Status a) \<longrightarrow> m = noUpdatesMessage w (Status a)"
  shows "finishedQuietly w a (finishRun w a m st)"
  using assms
  by (auto simp: finishedQuietly_def finishRun_def Let_def split_beta
      SetImageUpdateAutomationReadiness_def patchStatus_def
      intro!: exI [of _ "patched st"] split: option.splits)

lemma commitAndPush_quiet:
  assumes i: "inv True a st"
    and c: "CommitChangedManifests staged (Inl errNoChanges)
        \<in> set (trace (snd (commitAndPush w a gitSpec origin pushBranch tmp ent message st)))"
  shows "finishedQuietly w a (commitAndPush w a gitSpec origin pushBranch tmp ent message st)"
proof -
  define author where "author = \<lparr>sigName = AuthorName (Commit gitSpec),
      sigEmail = AuthorEmail (Commit gitSpec), sigWhen = authorNow (api w)\<rparr>"
  define res where "res = commitChangedManifests w tmp ent author message"
  define st2 where "st2 = emit (LogInfo ''no changes made in working directory; no commit'')
      (event w EventSeverityInfo ''no updates made''
        (emit (CommitChangedManifests (fst res) (snd res)) st))"
  have nc: "CommitChangedManifests s r \<notin> set (trace st)" for s r
    using i by (rule inv_no_commit)
  have is_nochange: "snd res = Inl errNoChanges"
  proof (rule ccontr)
    assume n: "snd res \<noteq> Inl errNoChanges"
    have "CommitChangedManifests staged (Inl errNoChanges)
        \<notin> set (trace (snd (commitAndPush w a gitSpec origin pushBranch tmp ent message st)))"
      using n nc
      by (auto simp: commitAndPush_def Let_def split_beta author_def [symmetric]
          res_def [symmetric] commit_failWithError_trace finishRun_def
          split: sum.splits option.splits)
    with c show False by simp
  qed
  have base: "list_all (settled (Status a)) (trace st2)"
    "LastPushCommit (status st2) = LastPushCommit (Status a)"
    "LastPushTime (status st2) = LastPushTime (Status a)"
    using i inv_settled [OF i] by (simp_all add: st2_def inv_def)
  have unfold: "commitAndPush w a gitSpec origin pushBranch tmp ent message st =
      (if LastPushCommit (Status a) \<noteq> [] then
         (if length (LastPushCommit (Status a)) < 7
          then (Panic ''slice bounds out of range'', st2)
          else (case LastPushTime (Status a) of
                  None \<Rightarrow> (Panic ''invalid memory address or nil pointer dereference'', st2)
                | Some t \<Rightarrow>
                    finishRun w a (''no updates made'' @ ''; last commit ''
                      @ take 7 (LastPushCommit (Status a)) @ '' at '' @ FormatRFC3339 w t) st2))
       else finishRun w a ''no updates made'' st2)"
  proof -
    have "LastPushCommit (status st) = LastPushCommit (Status a)"
      "LastPushTime (status st) = LastPushTime (Status a)"
      using i by (simp_all add: inv_def)
    then show ?thesis
      using is_nochange
      by (simp add: commitAndPush_def Let_def split_beta author_def [symmetric]
          res_def [symmetric] st2_def split: option.splits)
  qed
  show ?thesis
  proof (cases "wellRecorded (Status a)")
    case True
    then show ?thesis
      unfolding unfold using base
      by (auto simp: wellRecorded_def noUpdatesMessage_def intro!: finishRun_quiet)
  next
    case False
    then show ?thesis
      unfolding unfold using base
      by (auto simp: finishedQuietly_def wellRecorded_def split: option.splits)
  qed
qed


text \<open>
  C2, amended. Take a run in which \<^verbatim>\<open>commitChangedManifests\<close> returns
  \<^verbatim>\<open>errNoChanges\<close>. Push is never called, and neither the local status nor any status
  patch of the run changes \<^verbatim>\<open>LastPushCommit\<close> or \<^verbatim>\<open>LastPushTime\<close>. When no push is
  recorded, or the recorded commit has at least seven characters and its time is
  recorded, readiness is set to True with the message "no updates made" (followed by the
  last commit and its time when a push is recorded), the status is patched, and the run
  returns what that patch decides: the requeue interval and no error when the patch
  succeeds, a requeue with the patch's error otherwise.
\<close>

theorem Reconcile_no_changes:
  assumes "getAuto (api w) = Inr a"
    and "CommitChangedManifests staged (Inl errNoChanges) \<in> set (trace (snd (Reconcile w)))"
  shows "(\<forall>b r. PushBranch b r \<notin> set (trace (snd (Reconcile w))))
       \<and> (\<forall>s r. PatchStatus s r \<in> set (trace (snd (Reconcile w))) \<longrightarrow>
             LastPushCommit s = LastPushCommit (Status a)
             \<and> LastPushTime s = LastPushTime (Status a))
       \<and> LastPushCommit (status (snd (Reconcile w))) = LastPushCommit (Status a)
       \<and> LastPushTime (status (snd (Reconcile w))) = LastPushTime (Status a)
       \<and> (wellRecorded (Status a) \<longrightarrow>
            Ready (status (snd (Reconcile w))) =
              Some \<lparr>cStatus = ConditionTrue, cReason = ReconciliationSucceededReason,
                    cMessage = noUpdatesMessage w (Status a)\<rparr>
            \<and> (\<exists>n. PatchStatus (status (snd (Reconcile w))) (PatchAnswer (api w) n)
                      \<in> set (trace (snd (Reconcile w)))
                  \<and> fst (Reconcile w) =
                      (case PatchAnswer (api w) n of
                         None \<Rightarrow>
                           Return (\<lparr>Requeue = False, RequeueAfter = intervalOrDefault a\<rparr>, None)
                       | Some err \<Rightarrow> Return (requeueNow, Some err))))
       \<and> (wellRecorded (Status a) \<and> (\<forall>n. PatchAnswer (api w) n = None) \<longrightarrow>
            fst (Reconcile w) =
              Return (\<lparr>Requeue = False, RequeueAfter = intervalOrDefault a\<rparr>, None))"
proof -
  define body where
    "body = reconcileObject w a \<lparr>status = Status a, trace = [], patched = 0, deferred = []\<rparr>"
  have run: "Reconcile w = unwind w a body"
    using assms(1) by (simp add: Reconcile_unwind body_def)
  obtain devs where devs: "trace (snd (unwind w a body)) = trace (snd body) @ devs"
    "list_all telemetry devs"
    using unwind_trace [of w a body] by blast
  have committed: "CommitChangedManifests staged (Inl errNoChanges) \<in> set (trace (snd body))"
    using assms(2) devs telemetry_no_commit [OF devs(2)] by (simp add: run)
  have "reachesCommit w a body"
    unfolding body_def
    by (rule reachesPath_reachesCommit [OF reaches_reconcileObject [OF inv_init]])
  with committed obtain gitSpec origin pushBranch tmp ent message st where
    "inv True a st" "body = commitAndPush w a gitSpec origin pushBranch tmp ent message st"
    using inv_no_commit [of True a "snd body"] unfolding reachesCommit_def by blast
  with committed have q: "finishedQuietly w a body"
    using commitAndPush_quiet by simp
  have all: "list_all (settled (Status a)) (trace (snd (Reconcile w)))"
    using q devs by (auto simp: run finishedQuietly_def list_all_iff telemetry_settled)
  have 1: "PushBranch b r \<notin> set (trace (snd (Reconcile w)))" for b r
    using all by (auto simp: list_all_iff)
  have 2: "LastPushCommit s = LastPushCommit (Status a) \<and> LastPushTime s = LastPushTime (Status a)"
    if "PatchStatus s r \<in> set (trace (snd (Reconcile w)))" for s r
    using all that by (auto simp: list_all_iff)
  have 3: "LastPushCommit (status (snd (Reconcile w))) = LastPushCommit (Status a)"
    "LastPushTime (status (snd (Reconcile w))) = LastPushTime (Status a)"
    using q by (simp_all add: run finishedQuietly_def)
  have 4: "Ready (status (snd (Reconcile w))) =
        Some \<lparr>cStatus = ConditionTrue, cReason = ReconciliationSucceededReason,
              cMessage = noUpdatesMessage w (Status a)\<rparr>
      \<and> (\<exists>n. PatchStatus (status (snd (Reconcile w))) (PatchAnswer (api w) n)
                \<in> set (trace (snd (Reconcile w)))
            \<and> fst (Reconcile w) =
                (case PatchAnswer (api w) n of
                   None \<Rightarrow>
                     Return (\<lparr>Requeue = False, RequeueAfter = intervalOrDefault a\<rparr>, None)
                 | Some err \<Rightarrow> Return (requeueNow, Some err)))"
    if "wellRecorded (Status a)"
    using q that devs(1) by (auto simp: run finishedQuietly_def)
  have 5: "fst (Reconcile w) =
      Return (\<lparr>Requeue = False, RequeueAfter = intervalOrDefault a\<rparr>, None)"
    if "wellRecorded (Status a)" "\<forall>n. PatchAnswer (api w) n = None"
    using 4 [OF that(1)] that(2) by auto
  from 1 2 3 4 5 show ?thesis by blast
qed

subsection \<open>Runs of the example worlds\<close>

lemmas run_defs = Reconcile_def unwind_def reconcileObject_def acknowledgeRequest_def
  resolveSource_def resolveBranches_def cloneRepository_def fetchAndSwitch_def
  resolveManifestsPath_def applyStrategy_def signAndRender_def commitAndPush_def
  finishRun_def failWithError_def patchStatus_def event_def eventTrace_def emit_def
  deferCall_def SetImageUpdateAutomationReadiness_def recordSuspension_def
  recordReadinessMetric_def intervalOrDefault_def getRepoAccess_def cloneInto_def
  fetch_def fetchGoGit_def fetchLibgit2_def switchBranch_def push_def pushGoGit_def
  pushLibgit2_def commitChangedManifests_def getSigningEntity_def refspecOf_def
  emptyResult_def requeueNow_def gogitPushError_def IgnoreNotFound_def IsNotExist_def
  namespacedName_def Let_def

lemmas const_defs = GitRepositoryKind_def LibGit2Implementation_def GoGitImplementation_def
  EventSeverityInfo_def EventSeverityError_def UpdateStrategySetters_def
  defaultMessageTemplate_def signingSecretKey_def Second_def

lemmas example_defs = exampleWorld_def exampleCluster_def exampleGit_def exampleAuto_def
  exampleSpec_def exampleGitSpec_def exampleOrigin_def exampleStatus_def



text \<open>
  C2, as stated, fails where the closing status patch fails: the commit step returns
  \<^verbatim>\<open>errNoChanges\<close>, and lines 324 to 326 return the patch's error with a requeue.
\<close>

theorem Reconcile_no_changes_counterexample:
  "CommitChangedManifests [] (Inl errNoChanges)
     \<in> set (trace (snd (Reconcile noChangesConflictWorld)))
   \<and> fst (Reconcile noChangesConflictWorld) =
       Return (requeueNow, Some (Err ''the object has been modified''))"
  by (simp add: run_defs const_defs example_defs noChangesConflictWorld_def)

theorem Reconcile_no_changes_witness:
  "getAuto (api noChangesWorld) = Inr recordedAuto
   \<and> CommitChangedManifests [] (Inl errNoChanges) \<in> set (trace (snd (Reconcile noChangesWorld)))
   \<and> PushBranch ''flux-updates'' None \<notin> set (trace (snd (Reconcile noChangesWorld)))
   \<and> LastPushCommit (status (snd (Reconcile noChangesWorld))) =
       ''8f3a2c1d9e4b7a6c5d0e1f2a3b4c5d6e7f809a1b''
   \<and> LastPushTime (status (snd (Reconcile noChangesWorld))) = Some 900
   \<and> Ready (status (snd (Reconcile noChangesWorld))) =
       Some \<lparr>cStatus = ConditionTrue, cReason = ReconciliationSucceededReason,
             cMessage = ''no updates made; last commit 8f3a2c1 at 2021-11-01T00:00:00Z''\<rparr>
   \<and> fst (Reconcile noChangesWorld) =
       Return (\<lparr>Requeue = False, RequeueAfter = 60000000000\<rparr>, None)"
proof -
  have g: "getAuto (api noChangesWorld) = Inr recordedAuto"
    and p: "\<forall>n. PatchAnswer (api noChangesWorld) n = None"
    and r: "wellRecorded (Status recordedAuto)"
    and m: "noUpdatesMessage noChangesWorld (Status recordedAuto) =
        ''no updates made; last commit 8f3a2c1 at 2021-11-01T00:00:00Z''"
    and s: "LastPushCommit (Status recordedAuto) = ''8f3a2c1d9e4b7a6c5d0e1f2a3b4c5d6e7f809a1b''"
      "LastPushTime (Status recordedAuto) = Some 900"
    and i: "intervalOrDefault recordedAuto = 60000000000"
    by (simp_all add: noChangesWorld_def recordedAuto_def example_defs wellRecorded_def
        noUpdatesMessage_def intervalOrDefault_def Second_def)
  have c: "CommitChangedManifests [] (Inl errNoChanges)
      \<in> set (trace (snd (Reconcile noChangesWorld)))"
    by (simp add: run_defs const_defs example_defs noChangesWorld_def recordedAuto_def)
  show ?thesis using Reconcile_no_changes [OF g c] g c p r m s i by simp
qed

subsection \<open>Suspension\<close>

text \<open>
  C6. For a suspended automation \<^verbatim>\<open>Reconcile\<close> returns the empty result and no error.
  The status of the object is left as it was and no status patch is made; all the run
  does is write its log line and, on leaving, record the suspension metric (when a
  metrics recorder is configured and the object reference can be built), so there is
  no clone, fetch, commit or push.
\<close>

theorem Reconcile_suspended:
  assumes "getAuto (api w) = Inr a" and "Suspend (Spec a)"
  shows "fst (Reconcile w) = Return (emptyResult, None)
       \<and> status (snd (Reconcile w)) = Status a
       \<and> patched (snd (Reconcile w)) = 0
       \<and> trace (snd (Reconcile w)) =
           LogInfo ''ImageUpdateAutomation is suspended, skipping automation run''
           # (if MetricsRecorder (api w) then
                (case GetReference (api w) of
                   Some err \<Rightarrow> [LogError ''unable to record suspended metric'']
                 | None \<Rightarrow> [RecordSuspend (\<not> Deleting a)])
              else [])"
  using assms
  by (simp add: Reconcile_def unwind_def reconcileObject_def recordSuspension_def
      emit_def deferCall_def split: option.splits)

theorem Reconcile_suspended_witness:
  "getAuto (api suspendedWorld) = Inr suspendedAuto
   \<and> Suspend (Spec suspendedAuto)
   \<and> fst (Reconcile suspendedWorld) = Return (emptyResult, None)
   \<and> status (snd (Reconcile suspendedWorld)) = Status suspendedAuto
   \<and> trace (snd (Reconcile suspendedWorld)) =
       [LogInfo ''ImageUpdateAutomation is suspended, skipping automation run'',
        RecordSuspend True]"
proof -
  have g: "getAuto (api suspendedWorld) = Inr suspendedAuto"
    and s: "Suspend (Spec suspendedAuto)"
    and m: "MetricsRecorder (api suspendedWorld)" "GetReference (api suspendedWorld) = None"
      "\<not> Deleting suspendedAuto"
    by (simp_all add: suspendedWorld_def suspendedAuto_def example_defs)
  show ?thesis using Reconcile_suspended [OF g s] g s m by simp
qed

subsection \<open>Runs that go on where the spec has them stop\<close>

text \<open>
  C1 at an automation without a push spec whose checkout reference names no branch:
  line 198 calls \<^verbatim>\<open>failWithError\<close>, which records the failure, and drops what it
  returns; the run goes on to create the working directory, resolve the access, clone,
  commit and push to the branch with the empty name. Where there is no checkout
  reference at all, line 197 dereferences nil.
\<close>

theorem Reconcile_empty_branch_goes_on:
  "getAuto (api noBranchWorld) = Inr noBranchAuto
   \<and> GitSpec (Spec noBranchAuto) = Some noBranchGitSpec
   \<and> Push noBranchGitSpec = None
   \<and> Checkout noBranchGitSpec =
       Some \<lparr>Branch = [], Tag = ''v1.0.0'', SemVer = [], CommitSHA = []\<rparr>
   \<and> take 6 (trace (snd (Reconcile noBranchWorld))) =
       [LogInfo ''found git repository'',
        RecorderEvent ''error''
          (''Push branch not given explicitly, and cannot be inferred''
             @ '' from .spec.git.checkout.ref or GitRepository .spec.ref''),
        PatchStatus
          (exampleStatus\<lparr>Ready := Some \<lparr>cStatus = ConditionFalse,
             cReason = ReconciliationFailedReason,
             cMessage = ''Push branch not given explicitly, and cannot be inferred''
               @ '' from .spec.git.checkout.ref or GitRepository .spec.ref''\<rparr>\<rparr>) None,
        MkTempDir (Inr ''/tmp/flux-system-repo''),
        GetRepoAccess (Inr \<lparr>auth = None, url = ''https://example.com/repo.git''\<rparr>),
        CloneInto None]
   \<and> CommitChangedManifests [''deploy.yaml'']
         (Inr ''8f3a2c1d9e4b7a6c5d0e1f2a3b4c5d6e7f809a1b'')
       \<in> set (trace (snd (Reconcile noBranchWorld)))
   \<and> PushBranch [] (Some (Err ''malformed refspec''))
       \<in> set (trace (snd (Reconcile noBranchWorld)))
   \<and> fst (Reconcile noBranchWorld) = Return (requeueNow, Some (Err ''malformed refspec''))
   \<and> fst (Reconcile noRefWorld) = Panic ''invalid memory address or nil pointer dereference''"
  by (simp add: run_defs const_defs example_defs noBranchWorld_def noBranchAuto_def noBranchGitSpec_def
      noRefWorld_def noRefAuto_def noRefGitSpec_def TrimSpace_def trimLeftRunes.simps spaceRunes_def
      asciiSpaces_def unicodeSpaces_def)

text \<open>
  C3 at an automation that names a signing-key secret which does not exist:
  \<^verbatim>\<open>getSigningEntity\<close> returns its error, line 281 overwrites it, and the run commits
  without a signature, pushes and reports success.
\<close>

theorem Reconcile_signing_error_ignored:
  "getAuto (api missingKeyWorld) = Inr signedAuto
   \<and> getSigningEntity missingKeyWorld signedAuto =
       Return (Inl (Err (''could not find signing key secret '' @ [CHR 0x27]
         @ ''flux-system/signing-key'' @ [CHR 0x27] @ '': secret not found'')))
   \<and> GetSigningEntity (getSigningEntity missingKeyWorld signedAuto)
       \<in> set (trace (snd (Reconcile missingKeyWorld)))
   \<and> CommitChangedManifests [''deploy.yaml'']
         (Inr ''8f3a2c1d9e4b7a6c5d0e1f2a3b4c5d6e7f809a1b'')
       \<in> set (trace (snd (Reconcile missingKeyWorld)))
   \<and> PushBranch ''flux-updates'' None \<in> set (trace (snd (Reconcile missingKeyWorld)))
   \<and> Ready (status (snd (Reconcile missingKeyWorld))) =
       Some \<lparr>cStatus = ConditionTrue, cReason = ReconciliationSucceededReason,
             cMessage = ''committed and pushed 8f3a2c1d9e4b7a6c5d0e1f2a3b4c5d6e7f809a1b''
               @ '' to flux-updates''\<rparr>
   \<and> fst (Reconcile missingKeyWorld) =
       Return (\<lparr>Requeue = False, RequeueAfter = 60000000000\<rparr>, None)"
  by (simp add: run_defs const_defs example_defs missingKeyWorld_def signedAuto_def
      TrimSpace_def trimLeftRunes.simps spaceRunes_def asciiSpaces_def unicodeSpaces_def)

text \<open>
  C10 fails on the code. For every automation without the update field, a run that has
  cloned the repository (it has logged "cloned git repository") panics: line 236
  dereferences nil before the switch of line 244 tests for it, so the run never returns
  from the no-strategy branch.
\<close>

theorem Reconcile_nil_update_panics:
  assumes "getAuto (api w) = Inr a"
    and "Update (Spec a) = None"
    and "LogInfo ''cloned git repository'' \<in> set (trace (snd (Reconcile w)))"
  shows "fst (Reconcile w) = Panic ''invalid memory address or nil pointer dereference''"
proof -
  define body where
    "body = reconcileObject w a \<lparr>status = Status a, trace = [], patched = 0, deferred = []\<rparr>"
  have run: "Reconcile w = unwind w a body"
    using assms(1) by (simp add: Reconcile_unwind body_def)
  obtain devs where devs: "trace (snd (unwind w a body)) = trace (snd body) @ devs"
    "list_all telemetry devs"
    using unwind_trace [of w a body] by blast
  have marker: "LogInfo ''cloned git repository'' \<in> set (trace (snd body))"
    using assms(3) devs telemetry_no_log [OF devs(2)] by (simp add: run)
  have "reachesPath w a body"
    unfolding body_def by (rule reaches_reconcileObject [OF inv_init])
  with marker obtain gitSpec origin pushBranch tmp st where
    reach: "body = resolveManifestsPath w a gitSpec origin pushBranch tmp st"
    using inv_no_marker [of a "snd body"] unfolding reachesPath_def by blast
  have "body = (Panic ''invalid memory address or nil pointer dereference'', st)"
    using assms(2) by (simp add: reach resolveManifestsPath_def)
  then show ?thesis by (simp add: run)
qed

theorem Reconcile_nil_update_panics_witness:
  "getAuto (api nilUpdateWorld) = Inr nilUpdateAuto
   \<and> Update (Spec nilUpdateAuto) = None
   \<and> CloneInto None \<in> set (trace (snd (Reconcile nilUpdateWorld)))
   \<and> LogInfo ''cloned git repository'' \<in> set (trace (snd (Reconcile nilUpdateWorld)))
   \<and> Ready (status (snd (Reconcile nilUpdateWorld))) = None
   \<and> fst (Reconcile nilUpdateWorld) =
       Panic ''invalid memory address or nil pointer dereference''"
proof -
  have g: "getAuto (api nilUpdateWorld) = Inr nilUpdateAuto"
    and u: "Update (Spec nilUpdateAuto) = None"
    by (simp_all add: nilUpdateWorld_def nilUpdateAuto_def example_defs)
  have c: "CloneInto None \<in> set (trace (snd (Reconcile nilUpdateWorld)))"
    "LogInfo ''cloned git repository'' \<in> set (trace (snd (Reconcile nilUpdateWorld)))"
    "Ready (status (snd (Reconcile nilUpdateWorld))) = None"
    by (simp_all add: run_defs const_defs example_defs nilUpdateWorld_def nilUpdateAuto_def)
  show ?thesis using Reconcile_nil_update_panics [OF g u c(2)] g u c by simp
qed

end
